theory Spec2Isabelle
  imports Complex_Main "HOL-Library.Word" "HOL-Library.Signed_Division"
begin

section \<open>Common types\<close>

text \<open>
  \<open>task_id_t\<close> is \<open>uint32_t\<close>; \<open>pid_t\<close> and file descriptors are integers,
  \<open>uid_t\<close> and \<open>gid_t\<close> naturals. Strings are byte strings without \<open>NUL\<close>.
\<close>

type_synonym task_id_t = "32 word"
type_synonym pid_t = int
type_synonym EnvMap = "string \<rightharpoonup> string"

datatype CraneErr =
  kOk | kGenericFailure | kNonExistent | kSystemErr | kCgroupError
  | kProtobufError | kPermissionDenied | kFileNotFound

subsection \<open>Decimal formatting (\<open>std::to_string\<close>, \<open>fmt\<close>'s \<open>{}\<close>)\<close>

definition digit_char :: "nat \<Rightarrow> char" where
  "digit_char d = ''0123456789'' ! d"

fun to_string :: "nat \<Rightarrow> string" where
  "to_string n =
     (if n < 10 then [digit_char n]
      else to_string (n div 10) @ [digit_char (n mod 10)])"

declare to_string.simps [simp del]

text \<open>\<open>absl::EndsWith(s, "/")\<close>.\<close>

definition EndsWith_slash :: "string \<Rightarrow> bool" where
  "EndsWith_slash s = (if s = [] then False else last s = CHR ''/'')"

section \<open>JobManager::ParseFilePathPattern_\<close>

definition ParseFilePathPattern :: "string \<Rightarrow> string \<Rightarrow> task_id_t \<Rightarrow> string" where
  "ParseFilePathPattern path_pattern cwd task_id =
     (let resolved_path_pattern =
            (if path_pattern = [] then cwd @ ''/''
             else if hd path_pattern = CHR ''/'' then path_pattern
             else cwd @ ''/'' @ path_pattern)
      in if EndsWith_slash resolved_path_pattern
         then resolved_path_pattern @ ''Crane-'' @ to_string (unat task_id) @ ''.out''
         else resolved_path_pattern)"

text \<open>
  \<open>absl::StrReplaceAll({{"%j", j}, {"%u", u}, {"%x", x}}, &s)\<close>: one left-to-right
  pass, the replaced text is not scanned again.
\<close>

fun StrReplaceAll :: "string \<Rightarrow> string \<Rightarrow> string \<Rightarrow> string \<Rightarrow> string" where
  "StrReplaceAll j u x (a # b # cs) =
     (if a = CHR ''%'' \<and> b = CHR ''j'' then j @ StrReplaceAll j u x cs
      else if a = CHR ''%'' \<and> b = CHR ''u'' then u @ StrReplaceAll j u x cs
      else if a = CHR ''%'' \<and> b = CHR ''x'' then x @ StrReplaceAll j u x cs
      else a # StrReplaceAll j u x (b # cs))"
| "StrReplaceAll j u x cs = cs"

text \<open>
  \<open>emplace\<close> of \<open>std::unordered_map\<close> and \<open>absl::flat_hash_map\<close> inserts only when
  the key is absent; an existing entry keeps its value.
\<close>

definition emplace :: "'k \<Rightarrow> 'v \<Rightarrow> ('k \<rightharpoonup> 'v) \<Rightarrow> ('k \<rightharpoonup> 'v)" where
  "emplace k v m = (case m k of None \<Rightarrow> m(k \<mapsto> v) | Some old \<Rightarrow> m)"

section \<open>Job data model\<close>

datatype TaskType = Batch | Interactive

datatype InteractiveTaskType = Calloc | Crun

datatype TaskStatus =
  Pending | Running | Completed | Failed | ExceedTimeLimit | Cancelled

text \<open>
  The fields of \<open>crane::grpc::TaskToD\<close> that the job manager reads. The two script
  bodies and the interactive fields live in \<open>batch_meta\<close> and \<open>interactive_meta\<close>
  of the message.
\<close>

record TaskToD =
  task_id :: task_id_t
  task_type :: TaskType
  interactive_type :: InteractiveTaskType
  env :: EnvMap
  get_user_env :: bool
  allocated_nodes :: "string list"
  excludes :: "string list"
  task_name :: string
  account :: string
  task_partition :: string
  qos :: string
  term_env :: string
  pty :: bool
  cfored_name :: string
  time_limit_seconds :: int
  uid :: nat
  gid :: nat
  cwd :: string
  batch_sh_script :: string
  interactive_sh_script :: string
  output_file_pattern :: string
  error_file_pattern :: string

record PasswordEntry =
  Valid :: bool
  Uid :: nat
  Gid :: nat
  Username :: string
  HomeDir :: string
  Shell :: string

record ProcessInstance =
  proc_pid :: pid_t
  exec_path :: string
  arg_list :: "string list"
  parsed_output_file_pattern :: string
  parsed_error_file_pattern :: string

record TaskInstance =
  task :: TaskToD
  pwd_entry :: PasswordEntry
  parsed_sh_script_path :: string
  msg_fd :: int
  cgroup_path :: string
  orphaned :: bool
  err_before_exec :: CraneErr
  processes :: "pid_t \<rightharpoonup> ProcessInstance"

definition IsCrun :: "TaskInstance \<Rightarrow> bool" where
  "IsCrun inst =
     (task_type (task inst) = Interactive \<and> interactive_type (task inst) = Crun)"

definition IsCalloc :: "TaskInstance \<Rightarrow> bool" where
  "IsCalloc inst =
     (task_type (task inst) = Interactive \<and> interactive_type (task inst) = Calloc)"

text \<open>
  \<open>exit_code\<close> is a \<open>uint32_t\<close>; the named values of \<open>ExitCode\<close> are declared
  outside the files at hand and are kept by name.
\<close>

datatype ExitCode =
    kExitCodeCgroupError | kExitCodePermissionDenied | kExitCodeFileNotFound
  | kExitCodeSpawnProcessFail | kExitCodeExceedTimeLimit | ExitCodeValue nat

record TaskStatusChangeQueueElem =
  sc_task_id :: task_id_t
  new_status :: TaskStatus
  exit_code :: ExitCode
  reason :: "string option"

text \<open>
  The job manager's state. \<open>m_pid_task_map\<close> holds a pointer to the instance in the
  source; here it holds the job id that owns the instance. The last three fields record
  the calls the callbacks make on their collaborators, in order:
  \<open>g_ctld_client->TaskStatusChangeAsync\<close>, \<open>util::os::DeleteFile\<close> and
  \<open>m_task_map_.erase\<close>.
\<close>

record JobManager =
  m_task_map :: "task_id_t \<rightharpoonup> TaskInstance"
  m_task_status_change_queue :: "TaskStatusChangeQueueElem list"
  m_pid_task_map :: "pid_t \<rightharpoonup> task_id_t"
  m_pid_proc_map :: "pid_t \<rightharpoonup> ProcessInstance"
  ctld_status_changes :: "TaskStatusChangeQueueElem list"
  deleted_files :: "string list"
  erased_tasks :: "task_id_t list"

section \<open>JobManager: status changes and reaping\<close>

definition ActivateTaskStatusChangeAsync ::
  "task_id_t \<Rightarrow> TaskStatus \<Rightarrow> ExitCode \<Rightarrow> string option \<Rightarrow> JobManager \<Rightarrow> JobManager" where
  "ActivateTaskStatusChangeAsync tid st code rsn jm =
     jm\<lparr>m_task_status_change_queue := m_task_status_change_queue jm @
        [\<lparr>sc_task_id = tid, new_status = st, exit_code = code, reason = rsn\<rparr>]\<rparr>"

text \<open>One iteration of the dequeue loop of \<open>EvCleanTaskStatusChangeQueueCb_\<close>.\<close>

definition handle_status_change :: "TaskStatusChangeQueueElem \<Rightarrow> JobManager \<Rightarrow> JobManager" where
  "handle_status_change status_change jm =
     (case m_task_map jm (sc_task_id status_change) of
        None \<Rightarrow> jm
      | Some instance \<Rightarrow>
          (let jm1 = (if (task_type (task instance) = Batch \<or> IsCrun instance)
                         \<and> parsed_sh_script_path instance \<noteq> []
                      then jm\<lparr>deleted_files := deleted_files jm @ [parsed_sh_script_path instance]\<rparr>
                      else jm);
               was_orphaned = orphaned instance;
               jm2 = jm1\<lparr>m_task_map := (m_task_map jm1)(sc_task_id status_change := None),
                         erased_tasks := erased_tasks jm1 @ [sc_task_id status_change]\<rparr>
           in if \<not> was_orphaned
              then jm2\<lparr>ctld_status_changes := ctld_status_changes jm2 @ [status_change]\<rparr>
              else jm2))"

fun drain_status_changes :: "TaskStatusChangeQueueElem list \<Rightarrow> JobManager \<Rightarrow> JobManager" where
  "drain_status_changes [] jm = jm"
| "drain_status_changes (status_change # rest) jm =
     drain_status_changes rest (handle_status_change status_change jm)"

definition EvCleanTaskStatusChangeQueueCb :: "JobManager \<Rightarrow> JobManager" where
  "EvCleanTaskStatusChangeQueueCb jm =
     drain_status_changes (m_task_status_change_queue jm) (jm\<lparr>m_task_status_change_queue := []\<rparr>)"

text \<open>
  \<open>EvSigchldCb_\<close>: the \<open>waitpid(-1, &status, WNOHANG)\<close> loop. The kernel's answers
  are the list of \<open>(pid, status, errno)\<close>; a list that runs out stands for "no child
  left" (\<open>-1\<close> with \<open>ECHILD\<close>).
\<close>

fun EvSigchldCb :: "(int \<times> int \<times> int) list \<Rightarrow> JobManager \<Rightarrow> JobManager" where
  "EvSigchldCb [] jm = jm"
| "EvSigchldCb ((pid, status, errno) # later) jm =
     (if pid > 0 then EvSigchldCb later jm
      else if pid = 0 then jm
      else jm)"


text \<open>
  What reached the controller client for job \<open>J\<close>, and how often \<open>J\<close> was erased
  from the task map.
\<close>

definition forwarded_for :: "task_id_t \<Rightarrow> JobManager \<Rightarrow> TaskStatusChangeQueueElem list" where
  "forwarded_for J jm = filter (\<lambda>e. sc_task_id e = J) (ctld_status_changes jm)"

definition erase_count :: "task_id_t \<Rightarrow> JobManager \<Rightarrow> nat" where
  "erase_count J jm = count_list (erased_tasks jm) J"

section \<open>Environment of the child\<close>

text \<open>The loop \<open>for (auto& [name, value] : src) env_map.emplace(name, value)\<close>.\<close>

definition emplace_map :: "EnvMap \<Rightarrow> EnvMap \<Rightarrow> EnvMap" where
  "emplace_map src m = (\<lambda>k. case m k of None \<Rightarrow> src k | Some old \<Rightarrow> Some old)"

fun emplace_list :: "(string \<times> string) list \<Rightarrow> EnvMap \<Rightarrow> EnvMap" where
  "emplace_list [] m = m"
| "emplace_list ((k, v) # kvs) m = emplace_list kvs (emplace k v m)"

fun StrJoin :: "string list \<Rightarrow> string \<Rightarrow> string" where
  "StrJoin [] sep = []"
| "StrJoin [x] sep = x"
| "StrJoin (x # y # ys) sep = x @ sep @ StrJoin (y # ys) sep"

text \<open>
  \<open>fmt::format("{:0>2}", i)\<close> for an \<open>int\<close>: the decimal text, padded on the left
  with \<open>0\<close> to two characters. \<open>to_int\<close> is the narrowing of an \<open>int64_t\<close> to
  \<open>int\<close>.
\<close>

definition fmt_int :: "int \<Rightarrow> string" where
  "fmt_int i = (if i < 0 then CHR ''-'' # to_string (nat (- i)) else to_string (nat i))"

definition fmt_02 :: "int \<Rightarrow> string" where
  "fmt_02 i = replicate (2 - length (fmt_int i)) CHR ''0'' @ fmt_int i"

definition to_int :: "int \<Rightarrow> int" where
  "to_int i = sint (word_of_int i :: 32 word)"

definition GetTaskEnvMap :: "TaskInstance \<Rightarrow> EnvMap" where
  "GetTaskEnvMap inst =
     (let t = task inst;
          env_map0 = emplace_map (env t) Map.empty;
          env_map1 = (if get_user_env t
                      then emplace_list [(''HOME'', HomeDir (pwd_entry inst)),
                                         (''SHELL'', Shell (pwd_entry inst))] env_map0
                      else env_map0);
          env_map2 = emplace_list
                       [(''CRANE_JOB_NODELIST'', StrJoin (allocated_nodes t) '';''),
                        (''CRANE_EXCLUDES'', StrJoin (excludes t) '';''),
                        (''CRANE_JOB_NAME'', task_name t),
                        (''CRANE_ACCOUNT'', account t),
                        (''CRANE_PARTITION'', task_partition t),
                        (''CRANE_QOS'', qos t),
                        (''CRANE_JOB_ID'', to_string (unat (task_id t)))] env_map1;
          env_map3 = (if IsCrun inst \<and> term_env t \<noteq> []
                      then emplace ''TERM'' (term_env t) env_map2 else env_map2);
          time_limit_sec = time_limit_seconds t;
          hours = to_int (time_limit_sec sdiv 3600);
          minutes = to_int ((time_limit_sec smod 3600) sdiv 60);
          seconds = to_int (time_limit_sec smod 60);
          time_limit = fmt_02 hours @ '':'' @ fmt_02 minutes @ '':'' @ fmt_02 seconds
      in emplace ''CRANE_TIMELIMIT'' time_limit env_map3)"

text \<open>
  \<open>name_type_map\<close> of \<open>DedicatedResourceInNode\<close>: device name to device type to
  the slots granted.
\<close>

type_synonym DedicatedResourceInNode = "(string \<times> (string \<times> string list) list) list"

record ResourceInNode =
  cpu_core_limit :: rat
  memory_limit_bytes :: "64 word"
  memory_sw_limit_bytes :: "64 word"
  dedicated_res_in_node :: DedicatedResourceInNode

text \<open>
  \<open>CgroupManager::GetResourceEnvMapByResInNode\<close>. The device module's
  \<open>GetDevEnvMapByResInNode\<close> is a parameter.
\<close>

definition GetResourceEnvMapByResInNode ::
  "(DedicatedResourceInNode \<Rightarrow> EnvMap) \<Rightarrow> ResourceInNode \<Rightarrow> EnvMap" where
  "GetResourceEnvMapByResInNode GetDevEnvMapByResInNode res =
     emplace ''CRANE_MEM_PER_NODE''
       (to_string (unat (memory_limit_bytes res) div (1024 * 1024)))
       (GetDevEnvMapByResInNode (dedicated_res_in_node res))"

text \<open>
  \<open>setenv(name, value, 1)\<close> overwrites; it fails, changing nothing, on an empty name
  or one that holds \<open>=\<close>. \<open>FuncSetEnv\<close> calls it for every entry of the map and only
  warns on failure.
\<close>

definition setenv_accepts :: "string \<Rightarrow> bool" where
  "setenv_accepts k = (k \<noteq> [] \<and> CHR ''='' \<notin> set k)"

definition FuncSetEnv :: "EnvMap \<Rightarrow> EnvMap \<Rightarrow> EnvMap" where
  "FuncSetEnv v environ =
     (\<lambda>k. case v k of
            None \<Rightarrow> environ k
          | Some x \<Rightarrow> if setenv_accepts k then Some x else environ k)"

text \<open>
  The environment at \<open>execv\<close>: \<open>clearenv()\<close> (a failure only warns and leaves the
  inherited environment), then the task map, then the resource map.
\<close>

definition child_environ ::
  "(DedicatedResourceInNode \<Rightarrow> EnvMap) \<Rightarrow> int \<Rightarrow> EnvMap \<Rightarrow> TaskInstance \<Rightarrow> ResourceInNode \<Rightarrow> EnvMap" where
  "child_environ GetDevEnvMapByResInNode clearenv_rc inherited inst res =
     (let task_env_map = GetTaskEnvMap inst;
          res_env_map = GetResourceEnvMapByResInNode GetDevEnvMapByResInNode res;
          environ0 = (if clearenv_rc = 0 then Map.empty else inherited)
      in FuncSetEnv res_env_map (FuncSetEnv task_env_map environ0))"

section \<open>JobManager::SpawnProcessInInstance_\<close>

text \<open>
  The system calls of the two processes are recorded as events, in program order. What
  the kernel and the other process answer is a parameter: \<open>spawn_env\<close> for the calls
  made before and after \<open>fork\<close> by the parent, \<open>child_env\<close> for those of the child.

  The parent writes to the control socket through a buffered \<open>FileOutputStream\<close>.
  \<open>PSendCanStart b r\<close> is \<open>SerializeDelimitedToZeroCopyStream\<close> of \<open>ok = b\<close>
  followed by \<open>ostream.Flush()\<close>, \<open>r\<close> telling whether both succeeded: only this
  puts the message on the socket. \<open>PBufferCanStart b r\<close> is the serialisation alone,
  with result \<open>r\<close>: the message lies in the stream's buffer and, the descriptor being
  closed next, never reaches the socket.
\<close>

datatype parent_event =
    PSetPid pid_t
  | PRegisterIOForward string task_id_t int bool
  | PClose int
  | PMigrateProcIn pid_t bool
  | PSendCanStart bool bool
  | PBufferCanStart bool bool
  | PReadChildReady bool
  | PKill pid_t int

datatype child_event =
    CSignalDefault int
  | CSetgroups "nat list"
  | CSetresgid nat nat nat
  | CSetresuid nat nat nat
  | CChdir string
  | CSetpgid int int
  | CClose int
  | CReadCanStart "bool option"
  | COpen string int
  | CDup2 int int
  | CSendChildReady bool
  | CCloseFdFrom int
  | CClearenv
  | CExecv string "string list" EnvMap
  | CAbort

definition SIGKILL :: int where "SIGKILL = 9"
definition SIGABRT :: int where "SIGABRT = 6"

record spawn_env =
  GetTaskResourceInNode :: "ResourceInNode option"
  ctrl_socketpair_rc :: int
  ctrl_sock_pair :: "int \<times> int"
  crun_socketpair_rc :: int
  crun_io_sock_pair :: "int \<times> int"
  forkpty_master :: int
  fork_result :: int
  MigrateProcIn_ok :: bool
  serialize_can_start_ok :: bool
  flush_ok :: bool
  parse_child_ready_ok :: bool
  serialize_suicide_ok :: bool

record child_env =
  setgroups_rc :: int
  setresgid_rc :: int
  setresuid_rc :: int
  chdir_rc :: int
  read_can_start :: "bool option"
  open_stdout_fd :: int
  open_stderr_fd :: int
  send_ready_ok :: bool
  clearenv_rc :: int
  inherited_environ :: EnvMap
  GetDevEnvMapByResInNode :: "DedicatedResourceInNode \<Rightarrow> EnvMap"
  execv_returns :: bool

text \<open>
  \<open>std::abort()\<close> ends the child: whatever follows an abort in the program text is
  not run.
\<close>

definition and_then :: "child_event list \<Rightarrow> child_event list \<Rightarrow> child_event list" where
  "and_then evs k = (if CAbort \<in> set evs then evs else evs @ k)"

definition child_gids :: "TaskInstance \<Rightarrow> nat list" where
  "child_gids inst =
     (if gid (task inst) \<noteq> Gid (pwd_entry inst) then [gid (task inst)] else [])
     @ [Gid (pwd_entry inst)]"

text \<open>The credential and session calls, the first thing the child does.\<close>

definition child_credentials :: "child_env \<Rightarrow> TaskInstance \<Rightarrow> child_event list" where
  "child_credentials ce inst =
     and_then ([CSignalDefault SIGABRT, CSetgroups (child_gids inst)]
               @ (if setgroups_rc ce = - 1 then [CAbort] else []))
    (and_then ([CSetresgid (gid (task inst)) (gid (task inst)) (gid (task inst))]
               @ (if setresgid_rc ce = - 1 then [CAbort] else []))
    (and_then ([CSetresuid (Uid (pwd_entry inst)) (Uid (pwd_entry inst)) (Uid (pwd_entry inst))]
               @ (if setresuid_rc ce = - 1 then [CAbort] else []))
    (and_then ([CChdir (cwd (task inst))]
               @ (if chdir_rc ce = - 1 then [CAbort] else []))
       [CSetpgid 0 0])))"

text \<open>Standard output and error of a batch task.\<close>

definition batch_fd_setup :: "child_env \<Rightarrow> ProcessInstance \<Rightarrow> child_event list" where
  "batch_fd_setup ce process =
     (let stdout_file_path = parsed_output_file_pattern process;
          stderr_file_path = parsed_error_file_pattern process;
          stdout_fd = open_stdout_fd ce;
          stderr_fd = open_stderr_fd ce
      in and_then ([COpen stdout_file_path stdout_fd]
                   @ (if stdout_fd = - 1 then [CAbort] else []))
        (and_then ([CDup2 stdout_fd 1]
                   @ (if stderr_file_path = [] then [CDup2 stdout_fd 2]
                      else [COpen stderr_file_path stderr_fd]
                           @ (if stderr_fd = - 1 then [CAbort]
                              else [CDup2 stderr_fd 2, CClose stderr_fd])))
           [CClose stdout_fd]))"

definition child_argv :: "TaskInstance \<Rightarrow> ProcessInstance \<Rightarrow> string list" where
  "child_argv inst process =
     [''CraneScript''] @ (if get_user_env (task inst) then [''--login''] else [])
     @ [exec_path process] @ arg_list process"

text \<open>What the child does once it has read \<open>ok = true\<close>.\<close>

definition child_exec_phase ::
  "spawn_env \<Rightarrow> child_env \<Rightarrow> TaskInstance \<Rightarrow> ProcessInstance \<Rightarrow> bool \<Rightarrow> ResourceInNode
   \<Rightarrow> child_event list" where
  "child_exec_phase se ce inst process launch_pty res =
     and_then (if task_type (task inst) = Batch then batch_fd_setup ce process
               else if IsCrun inst \<and> \<not> launch_pty
               then [CClose (fst (crun_io_sock_pair se)),
                     CDup2 (snd (crun_io_sock_pair se)) 0,
                     CDup2 (snd (crun_io_sock_pair se)) 1,
                     CDup2 (snd (crun_io_sock_pair se)) 2,
                     CClose (snd (crun_io_sock_pair se))]
               else [])
    (and_then ([CSendChildReady True] @ (if \<not> send_ready_ok ce then [CAbort] else []))
       ([CClose (snd (ctrl_sock_pair se))]
        @ (if task_type (task inst) = Batch then [CClose 0] else [])
        @ [CCloseFdFrom 3, CClearenv,
           CExecv ''/bin/bash'' (child_argv inst process)
             (child_environ (GetDevEnvMapByResInNode ce) (clearenv_rc ce)
                (inherited_environ ce) inst res)]
        @ (if execv_returns ce then [CAbort] else [])))"

text \<open>
  The child branch: credentials and session first, then the read of the parent's
  \<open>CanStartMessage\<close>; a failed read or \<open>ok = false\<close> aborts.
\<close>

definition child_branch ::
  "spawn_env \<Rightarrow> child_env \<Rightarrow> TaskInstance \<Rightarrow> ProcessInstance \<Rightarrow> bool \<Rightarrow> ResourceInNode
   \<Rightarrow> child_event list" where
  "child_branch se ce inst process launch_pty res =
     and_then (child_credentials ce inst)
    (and_then ([CClose (fst (ctrl_sock_pair se)), CReadCanStart (read_can_start ce)]
               @ (if read_can_start ce \<noteq> Some True then [CAbort] else []))
       (child_exec_phase se ce inst process launch_pty res))"

text \<open>
  \<open>KillProcessInstance_(process, SIGKILL)\<close> signals the process group of the child.
\<close>

definition KillProcessInstance :: "ProcessInstance \<Rightarrow> int \<Rightarrow> parent_event list" where
  "KillProcessInstance process signum = [PKill (- proc_pid process) signum]"

text \<open>
  The label \<open>AskChildToSuicide\<close>: \<open>ok = false\<close> is serialised into the stream and
  the control descriptor is closed, with no \<open>Flush\<close> in between.
\<close>

definition AskChildToSuicide ::
  "spawn_env \<Rightarrow> int \<Rightarrow> TaskInstance \<Rightarrow> ProcessInstance
   \<Rightarrow> CraneErr \<times> TaskInstance \<times> ProcessInstance \<times> parent_event list" where
  "AskChildToSuicide se ctrl_fd inst process =
     (let evs = [PBufferCanStart False (serialize_suicide_ok se), PClose ctrl_fd]
      in if \<not> serialize_suicide_ok se
         then (kOk, inst\<lparr>err_before_exec := kProtobufError\<rparr>, process,
               evs @ KillProcessInstance process SIGKILL)
         else (kOk, inst, process, evs))"

definition parent_branch ::
  "spawn_env \<Rightarrow> TaskInstance \<Rightarrow> ProcessInstance \<Rightarrow> bool
   \<Rightarrow> CraneErr \<times> TaskInstance \<times> ProcessInstance \<times> parent_event list" where
  "parent_branch se inst process0 launch_pty =
     (let child_pid = fork_result se;
          process = process0\<lparr>proc_pid := child_pid\<rparr>;
          ctrl_fd = fst (ctrl_sock_pair se);
          evs0 = [PSetPid child_pid]
                 @ (if IsCrun inst
                    then [PRegisterIOForward (cfored_name (task inst)) (task_id (task inst))
                            (msg_fd inst) launch_pty]
                    else [])
                 @ [PClose (snd (ctrl_sock_pair se))]
                 @ (if IsCrun inst \<and> \<not> launch_pty then [PClose (snd (crun_io_sock_pair se))] else [])
                 @ [PMigrateProcIn child_pid (MigrateProcIn_ok se)]
      in if \<not> MigrateProcIn_ok se
         then (case AskChildToSuicide se ctrl_fd (inst\<lparr>err_before_exec := kCgroupError\<rparr>) process of
                 (err, inst', process', evs) \<Rightarrow> (err, inst', process', evs0 @ evs))
         else
           (let ok = (serialize_can_start_ok se \<and> flush_ok se);
                evs1 = evs0 @ [PSendCanStart True ok]
            in if \<not> ok
               then (kOk, inst\<lparr>err_before_exec := kProtobufError\<rparr>, process,
                     evs1 @ [PClose ctrl_fd] @ KillProcessInstance process SIGKILL)
               else
                 (let evs2 = evs1 @ [PReadChildReady (parse_child_ready_ok se)]
                  in if \<not> parse_child_ready_ok se
                     then (kOk, inst\<lparr>err_before_exec := kProtobufError\<rparr>, process,
                           evs2 @ [PClose ctrl_fd] @ KillProcessInstance process SIGKILL)
                     else (kOk, inst, process, evs2 @ [PClose ctrl_fd]))))"

datatype spawn_result =
    ParentReturns CraneErr TaskInstance ProcessInstance "parent_event list"
  | ChildRuns "child_event list"

text \<open>
  \<open>fork_result\<close> is what \<open>fork()\<close> (or \<open>forkpty()\<close>) returned in the process that
  evaluates the function: \<open>-1\<close> on failure, the child's pid in the parent, \<open>0\<close> in
  the child.
\<close>

definition crun_launch_pty :: "TaskInstance \<Rightarrow> bool" where
  "crun_launch_pty inst = (IsCrun inst \<and> pty (task inst))"

text \<open>
  For a Crun task \<open>msg_fd\<close> of the instance becomes the pty master, or the parent's end
  of the I/O socket pair.
\<close>

definition with_msg_fd :: "spawn_env \<Rightarrow> TaskInstance \<Rightarrow> TaskInstance" where
  "with_msg_fd se inst =
     (if IsCrun inst
      then inst\<lparr>msg_fd := (if crun_launch_pty inst then forkpty_master se
                             else fst (crun_io_sock_pair se))\<rparr>
      else inst)"

definition SpawnProcessInInstance ::
  "spawn_env \<Rightarrow> child_env \<Rightarrow> TaskInstance \<Rightarrow> ProcessInstance \<Rightarrow> spawn_result" where
  "SpawnProcessInInstance se ce inst process =
     (case GetTaskResourceInNode se of
        None \<Rightarrow> ParentReturns kCgroupError inst process []
      | Some res_in_node \<Rightarrow>
          if ctrl_socketpair_rc se \<noteq> 0 then ParentReturns kSystemErr inst process []
          else
            (let launch_pty = crun_launch_pty inst
             in if IsCrun inst \<and> \<not> launch_pty \<and> crun_socketpair_rc se \<noteq> 0
                then ParentReturns kSystemErr inst process []
                else
                  (let inst1 = with_msg_fd se inst;
                       child_pid = fork_result se
                   in if child_pid = - 1 then ParentReturns kSystemErr inst1 process []
                      else if child_pid > 0
                      then (case parent_branch se inst1 process launch_pty of
                              (err, inst', process', evs) \<Rightarrow> ParentReturns err inst' process' evs)
                      else ChildRuns (child_branch se ce inst1 process launch_pty res_in_node))))"

section \<open>JobManager::LaunchTaskInstanceMt_\<close>

record launch_env =
  CheckIfCgroupForTasksExists :: bool
  pwd_lookup :: PasswordEntry
  AllocateAndGetCgroup :: "string option"
  CranedScriptDir :: string
  fopen_ok :: bool

datatype launch_result =
    LaunchReturns JobManager
  | LaunchInChild "child_event list"

definition parsed_pattern :: "string \<Rightarrow> TaskInstance \<Rightarrow> string" where
  "parsed_pattern pattern inst =
     StrReplaceAll (to_string (unat (task_id (task inst)))) (Username (pwd_entry inst))
       (task_name (task inst))
       (ParseFilePathPattern pattern (cwd (task inst)) (task_id (task inst)))"

text \<open>
  The instance is reached through a pointer into \<open>m_task_map_\<close>; its changes are written
  back under the job's id.
\<close>

definition store_instance :: "TaskInstance \<Rightarrow> JobManager \<Rightarrow> JobManager" where
  "store_instance inst jm = jm\<lparr>m_task_map := (m_task_map jm)(task_id (task inst) \<mapsto> inst)\<rparr>"

text \<open>
  The \<open>ProcessInstance\<close> built for the script, with the output and error paths of a
  batch task: \<open>%j\<close>, \<open>%u\<close> and \<open>%x\<close> are replaced in what
  \<open>ParseFilePathPattern_\<close> returns; an empty error pattern leaves the error path empty.
\<close>

definition launch_process :: "string \<Rightarrow> TaskInstance \<Rightarrow> ProcessInstance" where
  "launch_process sh_path inst =
     (let process = \<lparr>proc_pid = 0, exec_path = sh_path, arg_list = [],
                       parsed_output_file_pattern = [], parsed_error_file_pattern = []\<rparr>
      in if task_type (task inst) = Batch
         then process\<lparr>
                parsed_output_file_pattern := parsed_pattern (output_file_pattern (task inst)) inst,
                parsed_error_file_pattern :=
                  (if error_file_pattern (task inst) \<noteq> []
                   then parsed_pattern (error_file_pattern (task inst)) inst
                   else [])\<rparr>
         else process)"

text \<open>What \<open>LaunchTaskInstanceMt_\<close> does with the result of the spawn.\<close>

definition launch_after_spawn :: "spawn_result \<Rightarrow> task_id_t \<Rightarrow> JobManager \<Rightarrow> launch_result" where
  "launch_after_spawn r tid jm =
     (case r of
        ChildRuns evs \<Rightarrow> LaunchInChild evs
      | ParentReturns err inst process evs \<Rightarrow>
          if err \<noteq> kOk
          then LaunchReturns
                 (ActivateTaskStatusChangeAsync tid Failed kExitCodeSpawnProcessFail
                    (Some (''Cannot spawn a new process inside the instance of task #''
                           @ to_string (unat tid)))
                    (store_instance inst jm))
          else
            (let inst' = inst\<lparr>processes := emplace (proc_pid process) process (processes inst)\<rparr>;
                 jm1 = store_instance inst' jm
             in LaunchReturns
                  (jm1\<lparr>m_pid_task_map := emplace (proc_pid process) tid (m_pid_task_map jm1),
                        m_pid_proc_map := emplace (proc_pid process) process (m_pid_proc_map jm1)\<rparr>)))"

definition LaunchTaskInstanceMt ::
  "launch_env \<Rightarrow> spawn_env \<Rightarrow> child_env \<Rightarrow> TaskInstance \<Rightarrow> JobManager \<Rightarrow> launch_result" where
  "LaunchTaskInstanceMt le se ce instance jm =
     (let tid = task_id (task instance)
      in if \<not> CheckIfCgroupForTasksExists le
         then LaunchReturns (ActivateTaskStatusChangeAsync tid Failed kExitCodeCgroupError
                (Some (''Failed to find created cgroup for task #'' @ to_string (unat tid))) jm)
         else
           (let inst1 = instance\<lparr>pwd_entry := pwd_lookup le\<rparr>
            in if \<not> Valid (pwd_entry inst1)
               then LaunchReturns (ActivateTaskStatusChangeAsync tid Failed kExitCodePermissionDenied
                      (Some (''Failed to look up password entry for uid ''
                             @ to_string (uid (task instance)) @ '' of task #''
                             @ to_string (unat tid)))
                      (store_instance inst1 jm))
               else
                 (case AllocateAndGetCgroup le of
                    None \<Rightarrow>
                      LaunchReturns (ActivateTaskStatusChangeAsync tid Failed kExitCodeCgroupError
                        (Some (''Failed to allocate cgroup for task #'' @ to_string (unat tid)))
                        (store_instance inst1 jm))
                  | Some cg_string \<Rightarrow>
                      (let inst2 = inst1\<lparr>cgroup_path := cg_string\<rparr>
                       in if IsCalloc inst2 then LaunchReturns (store_instance inst2 jm)
                          else
                            (let sh_path = CranedScriptDir le @ ''/Crane-'' @ to_string (unat tid) @ ''.sh'';
                                 inst3 = inst2\<lparr>parsed_sh_script_path := sh_path\<rparr>
                             in if \<not> fopen_ok le
                                then LaunchReturns
                                       (ActivateTaskStatusChangeAsync tid Failed kExitCodeFileNotFound
                                          (Some (''Cannot write shell script for batch task #''
                                                 @ to_string (unat tid)))
                                          (store_instance inst3 jm))
                                else launch_after_spawn
                                       (SpawnProcessInInstance se ce inst3 (launch_process sh_path inst3))
                                       tid jm)))))"

section \<open>Reading traces\<close>

text \<open>\<open>precedes a b evs\<close>: \<open>a\<close> occurs in \<open>evs\<close> and \<open>b\<close> occurs after its first occurrence.\<close>

fun precedes :: "'a \<Rightarrow> 'a \<Rightarrow> 'a list \<Rightarrow> bool" where
  "precedes a b [] = False"
| "precedes a b (x # xs) = (if x = a then b \<in> set xs else precedes a b xs)"

definition child_events :: "spawn_result \<Rightarrow> child_event list" where
  "child_events r = (case r of ChildRuns evs \<Rightarrow> evs | ParentReturns err inst process evs \<Rightarrow> [])"

definition parent_events :: "spawn_result \<Rightarrow> parent_event list" where
  "parent_events r = (case r of ParentReturns err inst process evs \<Rightarrow> evs | ChildRuns evs \<Rightarrow> [])"

text \<open>
  The control socket pair is private to the two processes: a message the child reads is
  one the parent has serialised and flushed (\<open>PSendCanStart\<close> with result
  \<open>True\<close>); a message left in the parent's buffer is not one. A failed read
  (\<open>None\<close>) needs no message: it is what the child gets once the parent has closed
  its end.
\<close>

definition delivered :: "parent_event list \<Rightarrow> bool option \<Rightarrow> bool" where
  "delivered pevs m = (case m of None \<Rightarrow> True | Some b \<Rightarrow> PSendCanStart b True \<in> set pevs)"

text \<open>
  What the parent branch leaves in \<open>err_before_exec\<close>, \<open>e\<close> being its value
  before.
\<close>

definition spawn_error :: "spawn_env \<Rightarrow> CraneErr \<Rightarrow> CraneErr" where
  "spawn_error se e =
     (if MigrateProcIn_ok se
      then (if serialize_can_start_ok se \<and> flush_ok se \<and> parse_child_ready_ok se
            then e else kProtobufError)
      else (if serialize_suicide_ok se then kCgroupError else kProtobufError))"

text \<open>The calls up to and including \<open>fork\<close> succeeded, seen from the parent.\<close>

definition fork_succeeded :: "spawn_env \<Rightarrow> TaskInstance \<Rightarrow> bool" where
  "fork_succeeded se inst =
     (GetTaskResourceInNode se \<noteq> None \<and> ctrl_socketpair_rc se = 0
      \<and> (if IsCrun inst \<and> \<not> pty (task inst) then crun_socketpair_rc se = 0 else True)
      \<and> fork_result se > 0)"

text \<open>The steps of \<open>LaunchTaskInstanceMt_\<close> that come before the spawn succeeded.\<close>

definition launch_reaches_spawn :: "launch_env \<Rightarrow> TaskInstance \<Rightarrow> bool" where
  "launch_reaches_spawn le inst =
     (CheckIfCgroupForTasksExists le \<and> Valid (pwd_lookup le)
      \<and> AllocateAndGetCgroup le \<noteq> None \<and> \<not> IsCalloc inst \<and> fopen_ok le)"

definition launch_queue :: "launch_result \<Rightarrow> TaskStatusChangeQueueElem list option" where
  "launch_queue r =
     (case r of LaunchReturns jm \<Rightarrow> Some (m_task_status_change_queue jm)
      | LaunchInChild evs \<Rightarrow> None)"

text \<open>
  The life of a launched job in the manager: \<open>LaunchTaskInstanceMt_\<close> in the
  parent, then the child-termination callback \<open>EvSigchldCb_\<close> with the answers
  \<open>ws\<close> of \<open>waitpid\<close>, then the status-change callback
  \<open>EvCleanTaskStatusChangeQueueCb_\<close>. \<open>None\<close> is the child's side of the fork.
\<close>

definition launch_then_reap ::
  "launch_env \<Rightarrow> spawn_env \<Rightarrow> child_env \<Rightarrow> TaskInstance \<Rightarrow> (int \<times> int \<times> int) list
   \<Rightarrow> JobManager \<Rightarrow> JobManager option" where
  "launch_then_reap le se ce inst ws jm =
     (case LaunchTaskInstanceMt le se ce inst jm of
        LaunchInChild evs \<Rightarrow> None
      | LaunchReturns jm1 \<Rightarrow> Some (EvCleanTaskStatusChangeQueueCb (EvSigchldCb ws jm1)))"

section \<open>CgroupManager: limits\<close>

datatype CgroupVersion = CGROUP_V1 | CGROUP_V2 | UNDEFINED

datatype Controller =
    MEMORY_CONTROLLER | CPUACCT_CONTROLLER | FREEZE_CONTROLLER | BLOCK_CONTROLLER
  | CPU_CONTROLLER | DEVICES_CONTROLLER
  | CPU_CONTROLLER_V2 | MEMORY_CONTORLLER_V2 | CPUSET_CONTROLLER_V2 | IO_CONTROLLER_V2
  | PIDS_CONTROLLER_V2

datatype ControllerFile =
    CPU_SHARES | CPU_CFS_PERIOD_US | CPU_CFS_QUOTA_US
  | MEMORY_LIMIT_BYTES | MEMORY_MEMSW_LIMIT_IN_BYTES | MEMORY_SOFT_LIMIT_BYTES
  | BLOCKIO_WEIGHT | DEVICES_DENY | DEVICES_ALLOW
  | CPU_WEIGHT_V2 | CPU_MAX_V2 | MEMORY_MAX_V2 | MEMORY_SWAP_MAX_V2 | MEMORY_HIGH_V2
  | IO_WEIGHT_V2

datatype cg_value = U64 "64 word" | Str string

text \<open>
  What libcgroup and the manager answer: whether a controller is mounted, whether the
  handle has it, the return code of \<open>cgroup_set_value_uint64\<close> /
  \<open>cgroup_set_value_string\<close> for a file, and for the \<open>n\<close>-th call of
  \<open>cgroup_modify_cgroup\<close> its return code with \<open>cgroup_get_last_errno()\<close>.
\<close>

record libcgroup =
  Mounted :: "Controller \<Rightarrow> bool"
  cgroup_get_controller_ok :: "Controller \<Rightarrow> bool"
  cgroup_set_value_rc :: "ControllerFile \<Rightarrow> int"
  cgroup_modify_cgroup_rc :: "nat \<Rightarrow> int \<times> int"

definition ECGOTHER :: int where "ECGOTHER = 50016"
definition EINTR :: int where "EINTR = 4"

text \<open>
  The \<open>Cgroup\<close> handle: the values set in the \<open>struct cgroup\<close>, the values that a
  successful \<open>cgroup_modify_cgroup\<close> has written to the control files, and the number
  of \<open>cgroup_modify_cgroup\<close> calls made so far.
\<close>

record Cgroup =
  m_cgroup_path :: string
  staged :: "ControllerFile \<rightharpoonup> cg_value"
  control_files :: "ControllerFile \<rightharpoonup> cg_value"
  modify_calls :: nat

text \<open>
  \<open>Cgroup::ModifyCgroup_\<close>: retried on \<open>ECGOTHER\<close> with \<open>EINTR\<close>, given up when
  \<open>retry_time\<close> exceeds 3.
\<close>

function ModifyCgroup_from :: "libcgroup \<Rightarrow> nat \<Rightarrow> Cgroup \<Rightarrow> bool \<times> Cgroup" where
  "ModifyCgroup_from lib retry_time cg =
     (let (err, errno_code) = cgroup_modify_cgroup_rc lib (modify_calls cg);
          cg1 = cg\<lparr>modify_calls := Suc (modify_calls cg)\<rparr>
      in if err = 0 then (True, cg1\<lparr>control_files := control_files cg1 ++ staged cg1\<rparr>)
         else if err \<noteq> ECGOTHER then (False, cg1)
         else if errno_code \<noteq> EINTR then (False, cg1)
         else if retry_time + 1 > 3 then (False, cg1)
         else ModifyCgroup_from lib (retry_time + 1) cg1)"
  by pat_completeness auto
termination
  by (relation "measure (\<lambda>(lib, retry_time, cg). 4 - retry_time)") auto

declare ModifyCgroup_from.simps [simp del]

definition ModifyCgroup :: "libcgroup \<Rightarrow> Cgroup \<Rightarrow> bool \<times> Cgroup" where
  "ModifyCgroup lib cg = ModifyCgroup_from lib 0 cg"

text \<open>\<open>Cgroup::SetControllerValue\<close> and \<open>Cgroup::SetControllerStr\<close>.\<close>

definition SetController ::
  "libcgroup \<Rightarrow> Controller \<Rightarrow> ControllerFile \<Rightarrow> cg_value \<Rightarrow> Cgroup \<Rightarrow> bool \<times> Cgroup" where
  "SetController lib controller controller_file v cg =
     (if \<not> Mounted lib controller then (False, cg)
      else if \<not> cgroup_get_controller_ok lib controller then (False, cg)
      else if cgroup_set_value_rc lib controller_file \<noteq> 0 then (False, cg)
      else ModifyCgroup lib (cg\<lparr>staged := (staged cg)(controller_file \<mapsto> v)\<rparr>))"

definition SetControllerValue ::
  "libcgroup \<Rightarrow> Controller \<Rightarrow> ControllerFile \<Rightarrow> 64 word \<Rightarrow> Cgroup \<Rightarrow> bool \<times> Cgroup" where
  "SetControllerValue lib controller controller_file v cg =
     SetController lib controller controller_file (U64 v) cg"

definition SetControllerStr ::
  "libcgroup \<Rightarrow> Controller \<Rightarrow> ControllerFile \<Rightarrow> string \<Rightarrow> Cgroup \<Rightarrow> bool \<times> Cgroup" where
  "SetControllerStr lib controller controller_file s cg =
     SetController lib controller controller_file (Str s) cg"

text \<open>
  The core count is a \<open>double\<close>. Every finite \<open>double\<close> is a rational, and its
  product with \<open>65536 = 2^16\<close> is exact, so it is modelled as a rational.
  \<open>std::round\<close> rounds halves away from zero; the conversion to \<open>uint64_t\<close> drops the
  fraction and is defined only when the result fits (\<open>None\<close> otherwise).
\<close>

definition cxx_round :: "rat \<Rightarrow> int" where
  "cxx_round x = (if 0 \<le> x then \<lfloor>x + 1 / 2\<rfloor> else \<lceil>x - 1 / 2\<rceil>)"

definition cxx_trunc :: "rat \<Rightarrow> int" where
  "cxx_trunc x = (if 0 \<le> x then \<lfloor>x\<rfloor> else \<lceil>x\<rceil>)"

definition to_uint64 :: "int \<Rightarrow> 64 word option" where
  "to_uint64 i = (if 0 \<le> i \<and> i < 2 ^ 64 then Some (word_of_int i) else None)"

definition cpu_base :: nat where "cpu_base = 2 ^ 16"

definition CgroupV1_SetCpuCoreLimit :: "libcgroup \<Rightarrow> rat \<Rightarrow> Cgroup \<Rightarrow> (bool \<times> Cgroup) option" where
  "CgroupV1_SetCpuCoreLimit lib core_num cg =
     (case to_uint64 (cxx_round (of_nat cpu_base * core_num)) of
        None \<Rightarrow> None
      | Some quota \<Rightarrow>
          (let (ret1, cg1) = SetControllerValue lib CPU_CONTROLLER CPU_CFS_QUOTA_US quota cg;
               (ret2, cg2) = SetControllerValue lib CPU_CONTROLLER CPU_CFS_PERIOD_US
                               (of_nat cpu_base) cg1
           in Some (ret1 \<and> ret2, cg2)))"

definition CgroupV2_SetCpuCoreLimit :: "libcgroup \<Rightarrow> rat \<Rightarrow> Cgroup \<Rightarrow> (bool \<times> Cgroup) option" where
  "CgroupV2_SetCpuCoreLimit lib core_num cg =
     (case to_uint64 (cxx_trunc (of_nat cpu_base * core_num)) of
        None \<Rightarrow> None
      | Some quota \<Rightarrow>
          (let cpuMaxValue = to_string (unat quota) @ '' '' @ to_string cpu_base
           in Some (SetControllerStr lib CPU_CONTROLLER_V2 CPU_MAX_V2 cpuMaxValue cg)))"

section \<open>CgroupManager: allocation\<close>

text \<open>
  \<open>CgroupInterface\<close> is abstract; the allocators call it through its virtual methods.
  An implementation is a record of its methods over the state \<open>'cg\<close> of the object.
\<close>

record 'cg CgroupInterface =
  SetCpuCoreLimit :: "rat \<Rightarrow> 'cg \<Rightarrow> bool \<times> 'cg"
  SetMemoryLimitBytes :: "64 word \<Rightarrow> 'cg \<Rightarrow> bool \<times> 'cg"
  SetMemorySoftLimitBytes :: "64 word \<Rightarrow> 'cg \<Rightarrow> bool \<times> 'cg"
  SetMemorySwLimitBytes :: "64 word \<Rightarrow> 'cg \<Rightarrow> bool \<times> 'cg"
  SetDeviceAccess :: "string set \<Rightarrow> bool \<Rightarrow> bool \<Rightarrow> bool \<Rightarrow> 'cg \<Rightarrow> bool \<times> 'cg"
  RecoverFromCgSpec :: "'cg \<Rightarrow> bool \<times> 'cg"

text \<open>\<open>AllocatableResourceAllocator::Allocate\<close> for the protobuf resource.\<close>

definition AllocatableResourceAllocator_Allocate ::
  "'cg CgroupInterface \<Rightarrow> ResourceInNode \<Rightarrow> 'cg \<Rightarrow> bool \<times> 'cg" where
  "AllocatableResourceAllocator_Allocate iface resource cg =
     (let (ok1, cg1) = SetCpuCoreLimit iface (cpu_core_limit resource) cg;
          (ok2, cg2) = SetMemoryLimitBytes iface (memory_limit_bytes resource) cg1;
          (ign3, cg3) = SetMemorySoftLimitBytes iface (memory_sw_limit_bytes resource) cg2;
          (ign4, cg4) = SetMemorySwLimitBytes iface (memory_sw_limit_bytes resource) cg3
      in (ok1 \<and> ok2, cg4))"

definition all_request_slots :: "DedicatedResourceInNode \<Rightarrow> string set" where
  "all_request_slots request_resource =
     set (concat (map snd (concat (map snd request_resource))))"

text \<open>
  The three \<open>CgroupConstant::CgroupLimitDevice...\<close> flags, the compile-time switch
  \<open>CRANE_ENABLE_BPF\<close>, the version found at start-up and the result of
  \<open>CreateOrOpen_\<close> (the handle, or null) are parameters. The asynchronous plugin hook
  has no part in the result and is left out, but for the handle it reads.
\<close>

record 'cg cgroup_manager_env =
  CgroupLimitDeviceRead :: bool
  CgroupLimitDeviceWrite :: bool
  CgroupLimitDeviceMknod :: bool
  CRANE_ENABLE_BPF :: bool
  GetCgroupVersion :: CgroupVersion
  CreateOrOpen :: "'cg option"

definition DedicatedResourceAllocator_Allocate ::
  "'cg cgroup_manager_env \<Rightarrow> 'cg CgroupInterface \<Rightarrow> DedicatedResourceInNode \<Rightarrow> 'cg \<Rightarrow> bool \<times> 'cg" where
  "DedicatedResourceAllocator_Allocate menv iface request_resource cg =
     (let (ok, cg1) = SetDeviceAccess iface (all_request_slots request_resource)
                        (CgroupLimitDeviceRead menv) (CgroupLimitDeviceWrite menv)
                        (CgroupLimitDeviceMknod menv) cg
      in if \<not> ok then (True, cg1) else (True, cg1))"

record CgroupSpec =
  job_id :: task_id_t
  res_in_node :: ResourceInNode
  recovered :: bool

text \<open>
  The result of \<open>AllocateAndGetJobCgroup\<close>: the handle or null, or a call through a null
  handle (undefined behaviour).
\<close>

datatype 'cg alloc_result = Returned "'cg option" | NullDereference

definition AllocateAndGetJobCgroup ::
  "'cg cgroup_manager_env \<Rightarrow> 'cg CgroupInterface \<Rightarrow> CgroupSpec \<Rightarrow> 'cg alloc_result" where
  "AllocateAndGetJobCgroup menv iface cg_spec =
     (let res = res_in_node cg_spec; recover = recovered cg_spec
      in if GetCgroupVersion menv = UNDEFINED then Returned None
         else
           (let cg_unique_ptr = CreateOrOpen menv
            in if recover
               then (if CRANE_ENABLE_BPF menv \<and> GetCgroupVersion menv = CGROUP_V2
                     then (case cg_unique_ptr of
                             None \<Rightarrow> NullDereference
                           | Some cg \<Rightarrow> Returned (Some (snd (RecoverFromCgSpec iface cg))))
                     else Returned cg_unique_ptr)
               else
                 (case cg_unique_ptr of
                    None \<Rightarrow> NullDereference
                  | Some cg \<Rightarrow>
                      (let (ok, cg1) = AllocatableResourceAllocator_Allocate iface res cg
                       in if ok
                          then (let (ok2, cg2) = DedicatedResourceAllocator_Allocate menv iface
                                                   (dedicated_res_in_node res) cg1
                                in if ok \<and> ok2 then Returned (Some cg2) else Returned None)
                          else Returned None))))"

definition returns_null :: "'cg alloc_result \<Rightarrow> bool" where
  "returns_null r = (r = Returned None)"

section \<open>CgroupManager: the recovery scan\<close>

text \<open>\<open>RE2::FullMatch(name, "Crane_Task_(\\d+)", &id)\<close>: the digits, when the whole name matches.\<close>

definition is_digit :: "char \<Rightarrow> bool" where
  "is_digit c = (c \<in> set ''0123456789'')"

definition match_cg_pattern :: "string \<Rightarrow> string option" where
  "match_cg_pattern s =
     (if take 11 s = ''Crane_Task_'' \<and> drop 11 s \<noteq> [] \<and> list_all is_digit (drop 11 s)
      then Some (drop 11 s) else None)"

definition digit_val :: "char \<Rightarrow> nat" where
  "digit_val c = length (takeWhile (\<lambda>d. d \<noteq> c) ''0123456789'')"

definition decimal :: "string \<Rightarrow> nat" where
  "decimal ds = foldl (\<lambda>a c. 10 * a + digit_val c) 0 ds"

text \<open>
  \<open>std::stoul\<close> throws \<open>std::out_of_range\<close> beyond \<open>unsigned long\<close> (\<open>None\<close>); the
  assignment to \<open>task_id_t\<close> keeps the low 32 bits.
\<close>

definition stoul :: "string \<Rightarrow> nat option" where
  "stoul ds = (if decimal ds < 2 ^ 64 then Some (decimal ds) else None)"

definition to_task_id :: "nat \<Rightarrow> task_id_t" where
  "to_task_id n = word_of_nat n"

text \<open>
  A scan returns the paths it removed, in order, or ends in the exception of
  \<open>std::stoul\<close>, which neither scan catches.
\<close>

datatype scan_result = ScanReturns "string list" | UncaughtOutOfRange

subsection \<open>Unified hierarchy: \<open>RmCgroupsV2Except_\<close>\<close>

record dir_entry =
  d_name :: string
  d_is_directory :: bool

text \<open>
  \<open>std::filesystem::remove\<close> returns true when it removed the entry, false when there
  was none, and throws \<open>filesystem_error\<close> otherwise; the scan catches that exception
  and ends.
\<close>

datatype remove_outcome = Removed | NotThere | Throws

fun RmCgroupsV2Except_loop ::
  "(string \<Rightarrow> remove_outcome) \<Rightarrow> string \<Rightarrow> task_id_t set \<Rightarrow> dir_entry list \<Rightarrow> string list
   \<Rightarrow> scan_result" where
  "RmCgroupsV2Except_loop fs_remove root_path job_ids [] removed = ScanReturns removed"
| "RmCgroupsV2Except_loop fs_remove root_path job_ids (it # rest) removed =
     (if d_is_directory it
      then (case match_cg_pattern (d_name it) of
              None \<Rightarrow> RmCgroupsV2Except_loop fs_remove root_path job_ids rest removed
            | Some job_id_str \<Rightarrow>
                (case stoul job_id_str of
                   None \<Rightarrow> UncaughtOutOfRange
                 | Some n \<Rightarrow>
                     if to_task_id n \<notin> job_ids
                     then RmCgroupsV2Except_loop fs_remove root_path job_ids rest removed
                     else (case fs_remove (root_path @ ''/'' @ d_name it) of
                             Removed \<Rightarrow> RmCgroupsV2Except_loop fs_remove root_path job_ids rest
                                          (removed @ [root_path @ ''/'' @ d_name it])
                           | NotThere \<Rightarrow> RmCgroupsV2Except_loop fs_remove root_path job_ids rest removed
                           | Throws \<Rightarrow> ScanReturns removed)))
      else RmCgroupsV2Except_loop fs_remove root_path job_ids rest removed)"

text \<open>
  The listing of the root is \<open>None\<close> when \<open>directory_iterator\<close> throws, which is caught
  too.
\<close>

definition RmCgroupsV2Except ::
  "(string \<Rightarrow> remove_outcome) \<Rightarrow> dir_entry list option \<Rightarrow> string \<Rightarrow> task_id_t set \<Rightarrow> scan_result" where
  "RmCgroupsV2Except fs_remove listing root_cgroup_path job_ids =
     (case listing of
        None \<Rightarrow> ScanReturns []
      | Some entries \<Rightarrow> RmCgroupsV2Except_loop fs_remove root_cgroup_path job_ids entries [])"

subsection \<open>Legacy hierarchies: \<open>RmJobCgroupsUnderControllerExcept_\<close>\<close>

datatype cgroup_file_type = CGROUP_FILE_TYPE_FILE | CGROUP_FILE_TYPE_DIR | CGROUP_FILE_TYPE_OTHER

record cgroup_file_info =
  info_type :: cgroup_file_type
  info_path :: string
  info_full_path :: string

text \<open>
  The walk is the list of entries that \<open>cgroup_walk_tree_begin\<close> and
  \<open>cgroup_walk_tree_next\<close> yield before they return non-zero; its head is the current
  \<open>info\<close>. The \<open>while\<close> loop may not end, so it runs on fuel: \<open>None\<close> says the loop
  is still running when the fuel is spent. \<open>continue\<close> goes back to the test
  \<open>ret == 0\<close> with \<open>info\<close> and \<open>ret\<close> as they are.
\<close>

fun RmJobCgroupsUnderControllerExcept_loop ::
  "nat \<Rightarrow> (string \<Rightarrow> int) \<Rightarrow> task_id_t set \<Rightarrow> cgroup_file_info list \<Rightarrow> string list
   \<Rightarrow> scan_result option" where
  "RmJobCgroupsUnderControllerExcept_loop 0 rmdir task_ids walk removed = None"
| "RmJobCgroupsUnderControllerExcept_loop (Suc fuel) rmdir task_ids [] removed =
     Some (ScanReturns removed)"
| "RmJobCgroupsUnderControllerExcept_loop (Suc fuel) rmdir task_ids (info # rest) removed =
     (if info_type info = CGROUP_FILE_TYPE_DIR
      then (case match_cg_pattern (info_path info) of
              None \<Rightarrow> RmJobCgroupsUnderControllerExcept_loop fuel rmdir task_ids rest removed
            | Some task_id_str \<Rightarrow>
                (case stoul task_id_str of
                   None \<Rightarrow> Some UncaughtOutOfRange
                 | Some n \<Rightarrow>
                     if to_task_id n \<in> task_ids
                     then RmJobCgroupsUnderControllerExcept_loop fuel rmdir task_ids
                            (info # rest) removed
                     else RmJobCgroupsUnderControllerExcept_loop fuel rmdir task_ids rest
                            (if rmdir (info_full_path info) = 0
                             then removed @ [info_full_path info] else removed)))
      else RmJobCgroupsUnderControllerExcept_loop fuel rmdir task_ids rest removed)"

definition RmJobCgroupsUnderControllerExcept ::
  "nat \<Rightarrow> (string \<Rightarrow> int) \<Rightarrow> cgroup_file_info list \<Rightarrow> task_id_t set \<Rightarrow> scan_result option" where
  "RmJobCgroupsUnderControllerExcept fuel rmdir walk task_ids =
     RmJobCgroupsUnderControllerExcept_loop fuel rmdir task_ids walk []"

definition removed_paths :: "scan_result \<Rightarrow> string list" where
  "removed_paths r = (case r of ScanReturns removed \<Rightarrow> removed | UncaughtOutOfRange \<Rightarrow> [])"

section \<open>CforedClient::AsyncSendRecvThread_\<close>

datatype State = Registering | WaitRegisterAck | Forwarding | Unregistering | End

datatype Tag = Prepare | Read | Write

datatype NextStatus = SHUTDOWN | GOT_EVENT | TIMEOUT

datatype ReplyType =
  SUPERVISOR_REGISTER_REPLY | SUPERVISOR_TASK_INPUT | SUPERVISOR_UNREGISTER_REPLY

datatype RequestType = SUPERVISOR_REGISTER | TASK_OUTPUT | SUPERVISOR_UNREGISTER

record StreamCforedTaskIOReply =
  reply_type :: ReplyType
  reply_msg :: string

text \<open>What the thread asks of the stream, in order.\<close>

datatype stream_op = StreamWrite RequestType | StreamWriteLast RequestType | StreamRead

record TaskFwdMeta =
  input_fd :: int
  output_fd :: int
  fwd_pid :: pid_t
  fwd_pty :: bool
  input_stopped :: bool
  output_stopped :: bool
  proc_stopped :: bool

record CforedClient =
  state :: State
  write_pending :: bool
  m_stopped :: bool
  output_clean_thread_joinable :: bool
  m_fwd_meta_map :: "pid_t \<rightharpoonup> TaskFwdMeta"
  stream_ops :: "stream_op list"

text \<open>
  One answer of \<open>m_cq_.AsyncNext\<close>, with the reply buffer as the stream has filled it.
\<close>

record cq_event =
  next_status :: NextStatus
  cq_ok :: bool
  cq_tag :: Tag
  cq_reply :: StreamCforedTaskIOReply

datatype loop_control = NextIteration | LoopExit | AssertFailed

text \<open>The end of the loop body: \<open>if (state == State::End) break;\<close>.\<close>

definition after_switch :: "CforedClient \<Rightarrow> loop_control \<times> CforedClient" where
  "after_switch c = (if state c = End then LoopExit else NextIteration, c)"

definition issue :: "stream_op \<Rightarrow> CforedClient \<Rightarrow> CforedClient" where
  "issue op c = c\<lparr>stream_ops := stream_ops c @ [op]\<rparr>"

text \<open>
  The input of a \<open>TASK_INPUT\<close> frame goes to every child whose input is not stopped;
  \<open>TaskInputNoLock_\<close>, the write to the child's descriptor, is a parameter.
\<close>

definition forward_input ::
  "(string \<Rightarrow> int \<Rightarrow> bool) \<Rightarrow> string \<Rightarrow> (pid_t \<rightharpoonup> TaskFwdMeta) \<Rightarrow> (pid_t \<rightharpoonup> TaskFwdMeta)" where
  "forward_input TaskInputNoLock msg fwd =
     (\<lambda>pid. case fwd pid of
              None \<Rightarrow> None
            | Some fwd_meta \<Rightarrow>
                Some (if \<not> input_stopped fwd_meta
                      then fwd_meta\<lparr>input_stopped := \<not> TaskInputNoLock msg (input_fd fwd_meta)\<rparr>
                      else fwd_meta))"

text \<open>One iteration of the \<open>while (true)\<close> loop.\<close>

definition AsyncSendRecv_iteration ::
  "(string \<Rightarrow> int \<Rightarrow> bool) \<Rightarrow> cq_event \<Rightarrow> CforedClient \<Rightarrow> loop_control \<times> CforedClient" where
  "AsyncSendRecv_iteration TaskInputNoLock ev c =
     (if next_status ev = SHUTDOWN then (LoopExit, c)
      else if next_status ev = TIMEOUT
      then (if m_stopped c
            then (if state c = Unregistering then (NextIteration, c)
                  else (let c1 = c\<lparr>output_clean_thread_joinable := False\<rparr>
                        in if write_pending c1 then (NextIteration, c1)
                           else (NextIteration,
                                 (issue (StreamWriteLast SUPERVISOR_UNREGISTER) c1)
                                   \<lparr>state := Unregistering\<rparr>)))
            else (NextIteration, c))
      else
        (let c1 = (if \<not> cq_ok ev \<and> cq_tag ev \<noteq> Prepare then c\<lparr>state := End\<rparr> else c)
         in case state c1 of
              Registering \<Rightarrow>
                if cq_tag ev \<noteq> Prepare then (AssertFailed, c1)
                else after_switch ((issue (StreamWrite SUPERVISOR_REGISTER)
                                      (c1\<lparr>write_pending := True\<rparr>))\<lparr>state := WaitRegisterAck\<rparr>)
            | WaitRegisterAck \<Rightarrow>
                if cq_tag ev = Write
                then after_switch (issue StreamRead (c1\<lparr>write_pending := False\<rparr>))
                else if cq_tag ev = Read
                then after_switch ((issue StreamRead (c1\<lparr>state := Forwarding\<rparr>))
                                     \<lparr>output_clean_thread_joinable := True\<rparr>)
                else after_switch c1
            | Forwarding \<Rightarrow>
                if cq_tag ev = Write then after_switch (c1\<lparr>write_pending := False\<rparr>)
                else if cq_tag ev \<noteq> Read then (AssertFailed, c1)
                else if reply_type (cq_reply ev) \<noteq> SUPERVISOR_TASK_INPUT then after_switch c1
                else after_switch
                       (issue StreamRead
                          (c1\<lparr>m_fwd_meta_map :=
                                 forward_input TaskInputNoLock (reply_msg (cq_reply ev))
                                   (m_fwd_meta_map c1)\<rparr>))
            | Unregistering \<Rightarrow>
                if cq_tag ev = Write then after_switch c1
                else if cq_tag ev \<noteq> Read then (AssertFailed, c1)
                else if reply_type (cq_reply ev) \<noteq> SUPERVISOR_UNREGISTER_REPLY
                then after_switch (issue StreamRead c1)
                else after_switch (c1\<lparr>state := End, m_stopped := True,
                                       output_clean_thread_joinable := False\<rparr>)
            | End \<Rightarrow>
                after_switch (c1\<lparr>m_stopped := True, output_clean_thread_joinable := False\<rparr>)))"

text \<open>A reply of the given type, read successfully.\<close>

definition got_reply :: "ReplyType \<Rightarrow> string \<Rightarrow> cq_event" where
  "got_reply t msg = \<lparr>next_status = GOT_EVENT, cq_ok = True, cq_tag = Read,
                       cq_reply = \<lparr>reply_type = t, reply_msg = msg\<rparr>\<rparr>"

section \<open>Concrete inputs\<close>

text \<open>Job 42, a batch job of user \<open>alice\<close>, and a manager that runs it as pid 1234.\<close>

definition demo_task :: TaskToD where
  "demo_task = \<lparr>task_id = 42, task_type = Batch, interactive_type = Calloc, env = Map.empty,
     get_user_env = False, allocated_nodes = [''cn1''], excludes = [], task_name = ''job'',
     account = ''acct'', task_partition = ''cpu'', qos = ''normal'', term_env = [], pty = False,
     cfored_name = [], time_limit_seconds = 3600, uid = 1000, gid = 1000, cwd = ''/tmp'',
     batch_sh_script = ''echo hi'', interactive_sh_script = [], output_file_pattern = [],
     error_file_pattern = []\<rparr>"

definition demo_pwd :: PasswordEntry where
  "demo_pwd = \<lparr>Valid = True, Uid = 1000, Gid = 1000, Username = ''alice'',
     HomeDir = ''/home/alice'', Shell = ''/bin/bash''\<rparr>"

definition demo_instance :: TaskInstance where
  "demo_instance = \<lparr>task = demo_task, pwd_entry = demo_pwd,
     parsed_sh_script_path = ''/var/crane/script/Crane-42.sh'', msg_fd = 0,
     cgroup_path = ''Crane_Task_42'', orphaned = False, err_before_exec = kOk,
     processes = Map.empty\<rparr>"

definition demo_status_change :: "TaskStatus \<Rightarrow> ExitCode \<Rightarrow> TaskStatusChangeQueueElem" where
  "demo_status_change st code = \<lparr>sc_task_id = 42, new_status = st, exit_code = code, reason = None\<rparr>"

definition demo_manager :: JobManager where
  "demo_manager = \<lparr>m_task_map = [42 \<mapsto> demo_instance],
     m_task_status_change_queue = [demo_status_change Completed (ExitCodeValue 0), demo_status_change Failed (ExitCodeValue 1)],
     m_pid_task_map = [1234 \<mapsto> 42], m_pid_proc_map = Map.empty,
     ctld_status_changes = [], deleted_files = [], erased_tasks = []\<rparr>"


text \<open>The same manager with job 42 marked orphaned.\<close>

definition demo_orphan_manager :: JobManager where
  "demo_orphan_manager = demo_manager\<lparr>m_task_map := [42 \<mapsto> demo_instance\<lparr>orphaned := True\<rparr>]\<rparr>"

text \<open>
  A launch of job 42 in which every call succeeds: the child gets pid 1234, the control
  socket pair is \<open>(7, 8)\<close>.
\<close>

definition demo_res :: ResourceInNode where
  "demo_res = \<lparr>cpu_core_limit = 1, memory_limit_bytes = 134217728,
     memory_sw_limit_bytes = 134217728, dedicated_res_in_node = []\<rparr>"

definition demo_spawn_env :: spawn_env where
  "demo_spawn_env = \<lparr>GetTaskResourceInNode = Some demo_res, ctrl_socketpair_rc = 0,
     ctrl_sock_pair = (7, 8), crun_socketpair_rc = 0, crun_io_sock_pair = (9, 10),
     forkpty_master = 11, fork_result = 1234, MigrateProcIn_ok = True,
     serialize_can_start_ok = True, flush_ok = True, parse_child_ready_ok = True,
     serialize_suicide_ok = True\<rparr>"

definition demo_child_env :: child_env where
  "demo_child_env = \<lparr>setgroups_rc = 0, setresgid_rc = 0, setresuid_rc = 0, chdir_rc = 0,
     read_can_start = Some True, open_stdout_fd = 12, open_stderr_fd = 13,
     send_ready_ok = True, clearenv_rc = 0, inherited_environ = Map.empty,
     GetDevEnvMapByResInNode = (\<lambda>d. Map.empty), execv_returns = False\<rparr>"

definition demo_process :: ProcessInstance where
  "demo_process = \<lparr>proc_pid = 0, exec_path = ''/var/crane/script/Crane-42.sh'', arg_list = [],
     parsed_output_file_pattern = ''/tmp/Crane-42.out'', parsed_error_file_pattern = []\<rparr>"

definition demo_launch_env :: launch_env where
  "demo_launch_env = \<lparr>CheckIfCgroupForTasksExists = True, pwd_lookup = demo_pwd,
     AllocateAndGetCgroup = Some ''Crane_Task_42'', CranedScriptDir = ''/var/crane/script'',
     fopen_ok = True\<rparr>"

text \<open>
  The same launch seen by a child whose read of the \<open>CanStartMessage\<close> fails, as it
  does when the parent has closed the control socket after a failed cgroup migration.
\<close>

definition demo_eof_child :: "child_event list" where
  "demo_eof_child =
     child_events (SpawnProcessInInstance (demo_spawn_env\<lparr>fork_result := 0\<rparr>)
                     (demo_child_env\<lparr>read_can_start := None\<rparr>) demo_instance demo_process)"

text \<open>The same launch seen by the parent when the cgroup migration fails.\<close>

definition demo_failed_migration :: spawn_env where
  "demo_failed_migration = demo_spawn_env\<lparr>MigrateProcIn_ok := False\<rparr>"

text \<open>
  A manager that has admitted job 42 and not launched it yet: the instance is in the task
  map, the queue and the pid maps are empty.
\<close>

definition demo_admitted_manager :: JobManager where
  "demo_admitted_manager = \<lparr>m_task_map = [42 \<mapsto> demo_instance],
     m_task_status_change_queue = [], m_pid_task_map = Map.empty, m_pid_proc_map = Map.empty,
     ctld_status_changes = [], deleted_files = [], erased_tasks = []\<rparr>"

text \<open>The child of job 42 exits with status 0 and is reaped; no other child is left.\<close>

definition demo_waitpid :: "(int \<times> int \<times> int) list" where
  "demo_waitpid = [(1234, 0, 0), (0, 0, 0)]"

text \<open>Job 42 submitted with \<open>CRANE_JOB_ID=999\<close> in its own environment.\<close>

definition demo_override_instance :: TaskInstance where
  "demo_override_instance =
     demo_instance\<lparr>task := demo_task\<lparr>env := [''CRANE_JOB_ID'' \<mapsto> ''999'']\<rparr>\<rparr>"



text \<open>
  A cgroup whose every libcgroup call succeeds, and the \<open>double\<close> nearest to \<open>0.3\<close>,
  which is \<open>5404319552844595 / 2^54\<close>.
\<close>

definition demo_lib :: libcgroup where
  "demo_lib = \<lparr>Mounted = (\<lambda>c. True), cgroup_get_controller_ok = (\<lambda>c. True),
     cgroup_set_value_rc = (\<lambda>f. 0), cgroup_modify_cgroup_rc = (\<lambda>n. (0, 0))\<rparr>"

definition demo_cgroup :: Cgroup where
  "demo_cgroup = \<lparr>m_cgroup_path = ''Crane_Task_42'', staged = Map.empty,
     control_files = Map.empty, modify_calls = 0\<rparr>"

definition double_0_3 :: rat where
  "double_0_3 = 5404319552844595 / 18014398509481984"

text \<open>What a call left in the control files, with its return value.\<close>

definition written_by :: "(bool \<times> Cgroup) option \<Rightarrow> ControllerFile \<Rightarrow> (bool \<times> cg_value option) option" where
  "written_by r f = map_option (\<lambda>(ok, cg). (ok, control_files cg f)) r"

text \<open>
  A controller root with the directories of jobs 1 and 2, of which job 1 survives, and
  where every removal succeeds.
\<close>

definition demo_listing :: "dir_entry list" where
  "demo_listing = [\<lparr>d_name = ''Crane_Task_1'', d_is_directory = True\<rparr>,
                   \<lparr>d_name = ''Crane_Task_2'', d_is_directory = True\<rparr>]"

definition demo_walk :: "cgroup_file_info list" where
  "demo_walk = [\<lparr>info_type = CGROUP_FILE_TYPE_DIR, info_path = ''Crane_Task_1'',
                  info_full_path = ''/sys/fs/cgroup/cpu/Crane_Task_1''\<rparr>,
                \<lparr>info_type = CGROUP_FILE_TYPE_DIR, info_path = ''Crane_Task_2'',
                  info_full_path = ''/sys/fs/cgroup/cpu/Crane_Task_2''\<rparr>]"

section \<open>Status-change delivery\<close>

lemma handle_status_change_absent:
  "m_task_map jm (sc_task_id sc) = None \<Longrightarrow> handle_status_change sc jm = jm"
  by (simp add: handle_status_change_def)

lemma handle_status_change_map:
  "m_task_map (handle_status_change sc jm) = (m_task_map jm)(sc_task_id sc := None)"
  by (auto simp: handle_status_change_def Let_def split: option.splits)

lemma handle_status_change_forwarded:
  "forwarded_for J (handle_status_change sc jm) =
     forwarded_for J jm @
       (case m_task_map jm J of None \<Rightarrow> []
        | Some inst \<Rightarrow> if sc_task_id sc = J \<and> \<not> orphaned inst then [sc] else [])"
  by (auto simp: handle_status_change_def forwarded_for_def Let_def split: option.splits)

lemma handle_status_change_erased:
  "erase_count J (handle_status_change sc jm) =
     erase_count J jm + (if sc_task_id sc = J \<and> m_task_map jm J \<noteq> None then 1 else 0)"
  by (auto simp: handle_status_change_def erase_count_def Let_def split: option.splits)

lemma drain_forwarded:
  "forwarded_for J (drain_status_changes q jm) =
     forwarded_for J jm @
       (case m_task_map jm J of None \<Rightarrow> []
        | Some inst \<Rightarrow> if orphaned inst then [] else take 1 (filter (\<lambda>e. sc_task_id e = J) q))"
proof (induction q arbitrary: jm)
  case Nil
  then show ?case by (simp split: option.splits)
next
  case (Cons sc q)
  show ?case
    by (simp add: Cons.IH handle_status_change_forwarded handle_status_change_map
        split: option.splits)
qed

lemma drain_erased:
  "erase_count J (drain_status_changes q jm) =
     erase_count J jm +
       (case m_task_map jm J of None \<Rightarrow> 0
        | Some inst \<Rightarrow> min 1 (length (filter (\<lambda>e. sc_task_id e = J) q)))"
proof (induction q arbitrary: jm)
  case Nil
  then show ?case by (simp split: option.splits)
next
  case (Cons sc q)
  show ?case
    by (simp add: Cons.IH handle_status_change_erased handle_status_change_map
        split: option.splits)
qed

lemma drain_map:
  "m_task_map (drain_status_changes q jm) J =
     (if filter (\<lambda>e. sc_task_id e = J) q = [] then m_task_map jm J else None)"
proof (induction q arbitrary: jm)
  case Nil
  then show ?case by simp
next
  case (Cons sc q)
  show ?case
    by (simp add: Cons.IH handle_status_change_map)
qed

lemma forwarded_for_queue_upd [simp]:
  "forwarded_for J (jm\<lparr>m_task_status_change_queue := q\<rparr>) = forwarded_for J jm"
  by (simp add: forwarded_for_def)

lemma erase_count_queue_upd [simp]:
  "erase_count J (jm\<lparr>m_task_status_change_queue := q\<rparr>) = erase_count J jm"
  by (simp add: erase_count_def)

lemma EvClean_forwarded:
  "forwarded_for J (EvCleanTaskStatusChangeQueueCb jm) =
     forwarded_for J jm @
       (case m_task_map jm J of None \<Rightarrow> []
        | Some inst \<Rightarrow> if orphaned inst then []
            else take 1 (filter (\<lambda>e. sc_task_id e = J) (m_task_status_change_queue jm)))"
  by (simp add: EvCleanTaskStatusChangeQueueCb_def drain_forwarded)

lemma EvClean_erased:
  "erase_count J (EvCleanTaskStatusChangeQueueCb jm) =
     erase_count J jm +
       (case m_task_map jm J of None \<Rightarrow> 0
        | Some inst \<Rightarrow> min 1 (length (filter (\<lambda>e. sc_task_id e = J) (m_task_status_change_queue jm))))"
  by (simp add: EvCleanTaskStatusChangeQueueCb_def drain_erased)

lemma EvClean_map:
  "m_task_map (EvCleanTaskStatusChangeQueueCb jm) J =
     (if filter (\<lambda>e. sc_task_id e = J) (m_task_status_change_queue jm) = []
      then m_task_map jm J else None)"
  by (simp add: EvCleanTaskStatusChangeQueueCb_def drain_map)


lemma EvClean_queue: "m_task_status_change_queue (EvCleanTaskStatusChangeQueueCb jm) = []"
proof -
  have h: "m_task_status_change_queue (handle_status_change sc j) = m_task_status_change_queue j" for sc j
    by (simp add: handle_status_change_def Let_def split: option.splits)
  have "m_task_status_change_queue (drain_status_changes q j) = m_task_status_change_queue j" for q j
    by (induction q arbitrary: j) (simp_all add: h)
  then show ?thesis by (simp add: EvCleanTaskStatusChangeQueueCb_def)
qed

text \<open>
  What the status-change callback does with a queued status change: when it runs with job
  \<open>J\<close> in the task map and at least one status change for \<open>J\<close> in the queue, the
  first of them is handed to the controller client once, unless the instance is marked
  orphaned, in which case none is; either way the instance is erased from the task map
  once. Further status changes for \<open>J\<close>, in the same run of the callback or in any
  later one, are dropped.
\<close>

lemma queued_status_change_forwarded_once:
  assumes admitted: "m_task_map jm J = Some inst"
    and queued: "filter (\<lambda>e. sc_task_id e = J) (m_task_status_change_queue jm) = sc # dups"
  shows "let jm' = EvCleanTaskStatusChangeQueueCb jm in
           forwarded_for J jm' = forwarded_for J jm @ (if orphaned inst then [] else [sc])
         \<and> erase_count J jm' = erase_count J jm + 1
         \<and> m_task_map jm' J = None
         \<and> (\<forall>q2. let jm'' = EvCleanTaskStatusChangeQueueCb (jm'\<lparr>m_task_status_change_queue := q2\<rparr>)
                  in forwarded_for J jm'' = forwarded_for J jm'
                   \<and> erase_count J jm'' = erase_count J jm')"
proof -
  define jm' where "jm' = EvCleanTaskStatusChangeQueueCb jm"
  have fwd: "forwarded_for J jm' = forwarded_for J jm @ (if orphaned inst then [] else [sc])"
    unfolding jm'_def by (simp add: EvClean_forwarded admitted queued)
  have era: "erase_count J jm' = erase_count J jm + 1"
    unfolding jm'_def by (simp add: EvClean_erased admitted queued)
  have gone: "m_task_map jm' J = None"
    unfolding jm'_def by (simp add: EvClean_map queued)
  have later: "forwarded_for J (EvCleanTaskStatusChangeQueueCb (jm'\<lparr>m_task_status_change_queue := q2\<rparr>))
                 = forwarded_for J jm'
             \<and> erase_count J (EvCleanTaskStatusChangeQueueCb (jm'\<lparr>m_task_status_change_queue := q2\<rparr>))
                 = erase_count J jm'" for q2
    by (simp add: EvClean_forwarded EvClean_erased gone)
  show ?thesis
    using fwd era gone later by (simp add: Let_def jm'_def)
qed

lemma demo_queued_status_change:
  "forwarded_for 42 (EvCleanTaskStatusChangeQueueCb demo_manager)
       = [demo_status_change Completed (ExitCodeValue 0)]
   \<and> erase_count 42 (EvCleanTaskStatusChangeQueueCb demo_manager) = 1
   \<and> m_task_map (EvCleanTaskStatusChangeQueueCb demo_manager) 42 = None
   \<and> forwarded_for 42 (EvCleanTaskStatusChangeQueueCb demo_orphan_manager) = []
   \<and> erase_count 42 (EvCleanTaskStatusChangeQueueCb demo_orphan_manager) = 1"
proof -
  have a: "m_task_map demo_manager 42 = Some demo_instance"
    by (simp add: demo_manager_def)
  have q: "filter (\<lambda>e. sc_task_id e = 42) (m_task_status_change_queue demo_manager)
       = demo_status_change Completed (ExitCodeValue 0) # [demo_status_change Failed (ExitCodeValue 1)]"
    by (simp add: demo_manager_def demo_status_change_def)
  have o: "\<not> orphaned demo_instance" by (simp add: demo_instance_def)
  have f0: "forwarded_for 42 demo_manager = []" by (simp add: forwarded_for_def demo_manager_def)
  have e0: "erase_count 42 demo_manager = 0" by (simp add: erase_count_def demo_manager_def)
  have a': "m_task_map demo_orphan_manager 42 = Some (demo_instance\<lparr>orphaned := True\<rparr>)"
    by (simp add: demo_orphan_manager_def)
  have q': "filter (\<lambda>e. sc_task_id e = 42) (m_task_status_change_queue demo_orphan_manager)
       = demo_status_change Completed (ExitCodeValue 0) # [demo_status_change Failed (ExitCodeValue 1)]"
    by (simp add: demo_orphan_manager_def demo_manager_def demo_status_change_def)
  have f0': "forwarded_for 42 demo_orphan_manager = []"
    by (simp add: forwarded_for_def demo_orphan_manager_def demo_manager_def)
  have e0': "erase_count 42 demo_orphan_manager = 0"
    by (simp add: erase_count_def demo_orphan_manager_def demo_manager_def)
  from queued_status_change_forwarded_once [OF a q] o f0 e0
  have 1: "forwarded_for 42 (EvCleanTaskStatusChangeQueueCb demo_manager)
             = [demo_status_change Completed (ExitCodeValue 0)]
         \<and> erase_count 42 (EvCleanTaskStatusChangeQueueCb demo_manager) = 1
         \<and> m_task_map (EvCleanTaskStatusChangeQueueCb demo_manager) 42 = None"
    by (simp add: Let_def)
  from queued_status_change_forwarded_once [OF a' q'] f0' e0'
  have 2: "forwarded_for 42 (EvCleanTaskStatusChangeQueueCb demo_orphan_manager) = []
         \<and> erase_count 42 (EvCleanTaskStatusChangeQueueCb demo_orphan_manager) = 1"
    by (simp add: Let_def)
  from 1 2 show ?thesis by simp
qed

section \<open>The spawn: parent and child\<close>

lemma with_msg_fd_same [simp]:
  "task (with_msg_fd se inst) = task inst"
  "pwd_entry (with_msg_fd se inst) = pwd_entry inst"
  "err_before_exec (with_msg_fd se inst) = err_before_exec inst"
  by (simp_all add: with_msg_fd_def)

lemma Spawn_after_fork:
  assumes "fork_succeeded se inst"
  shows "SpawnProcessInInstance se ce inst process =
     (case parent_branch se (with_msg_fd se inst) process (crun_launch_pty inst) of
        (err, inst', process', evs) \<Rightarrow> ParentReturns err inst' process' evs)"
  using assms
  by (auto simp: SpawnProcessInInstance_def fork_succeeded_def crun_launch_pty_def Let_def
      split: option.splits if_splits)

lemma Spawn_before_fork:
  assumes "\<not> fork_succeeded se inst"
  shows "parent_events (SpawnProcessInInstance se ce inst process) = []"
  using assms
  by (auto simp: SpawnProcessInInstance_def fork_succeeded_def crun_launch_pty_def
      parent_events_def Let_def split: option.splits if_splits)

lemma Spawn_in_child:
  assumes "SpawnProcessInInstance se ce inst process = ChildRuns evs"
  shows "\<exists>res. evs = child_branch se ce (with_msg_fd se inst) process (crun_launch_pty inst) res"
  using assms
  by (auto simp: SpawnProcessInInstance_def Let_def split: option.splits if_splits prod.splits)

lemma precedes_append_notin:
  "a \<notin> set xs \<Longrightarrow> precedes a b (xs @ ys) = precedes a b ys"
  by (induction xs) auto

lemma parent_branch_outcome:
  "\<exists>inst' process' evs.
     parent_branch se inst process launch_pty = (kOk, inst', process', evs)
   \<and> task inst' = task inst
   \<and> proc_pid process' = fork_result se
   \<and> err_before_exec inst' = spawn_error se (err_before_exec inst)
   \<and> (if \<not> MigrateProcIn_ok se
       then (\<forall>b r. PSendCanStart b r \<notin> set evs)
          \<and> precedes (PBufferCanStart False (serialize_suicide_ok se))
              (PClose (fst (ctrl_sock_pair se))) evs
          \<and> (PKill (- fork_result se) SIGKILL \<in> set evs) = (\<not> serialize_suicide_ok se)
       else if \<not> (serialize_can_start_ok se \<and> flush_ok se) \<or> \<not> parse_child_ready_ok se
       then PKill (- fork_result se) SIGKILL \<in> set evs
       else PKill (- fork_result se) SIGKILL \<notin> set evs
            \<and> PSendCanStart True True \<in> set evs)"
  by (simp add: parent_branch_def AskChildToSuicide_def KillProcessInstance_def Let_def
      spawn_error_def precedes_append_notin)

lemma Spawn_outcome:
  assumes "fork_succeeded se inst"
  shows "\<exists>inst' process' evs.
     SpawnProcessInInstance se ce inst process = ParentReturns kOk inst' process' evs
   \<and> task inst' = task inst
   \<and> proc_pid process' = fork_result se
   \<and> err_before_exec inst' = spawn_error se (err_before_exec inst)
   \<and> (if \<not> MigrateProcIn_ok se
       then (\<forall>b r. PSendCanStart b r \<notin> set evs)
          \<and> precedes (PBufferCanStart False (serialize_suicide_ok se))
              (PClose (fst (ctrl_sock_pair se))) evs
          \<and> (PKill (- fork_result se) SIGKILL \<in> set evs) = (\<not> serialize_suicide_ok se)
       else if \<not> (serialize_can_start_ok se \<and> flush_ok se) \<or> \<not> parse_child_ready_ok se
       then PKill (- fork_result se) SIGKILL \<in> set evs
       else PKill (- fork_result se) SIGKILL \<notin> set evs
            \<and> PSendCanStart True True \<in> set evs)"
proof -
  let ?inst1 = "with_msg_fd se inst"
  obtain inst' process' evs where
    pb: "parent_branch se ?inst1 process (crun_launch_pty inst) = (kOk, inst', process', evs)"
    and rest: "task inst' = task ?inst1" "proc_pid process' = fork_result se"
     "err_before_exec inst' = spawn_error se (err_before_exec ?inst1)"
     "(if \<not> MigrateProcIn_ok se
       then (\<forall>b r. PSendCanStart b r \<notin> set evs)
          \<and> precedes (PBufferCanStart False (serialize_suicide_ok se))
              (PClose (fst (ctrl_sock_pair se))) evs
          \<and> (PKill (- fork_result se) SIGKILL \<in> set evs) = (\<not> serialize_suicide_ok se)
       else if \<not> (serialize_can_start_ok se \<and> flush_ok se) \<or> \<not> parse_child_ready_ok se
       then PKill (- fork_result se) SIGKILL \<in> set evs
       else PKill (- fork_result se) SIGKILL \<notin> set evs
            \<and> PSendCanStart True True \<in> set evs)"
    using parent_branch_outcome [of se ?inst1 process "crun_launch_pty inst"] by blast
  have "SpawnProcessInInstance se ce inst process = ParentReturns kOk inst' process' evs"
    by (simp only: Spawn_after_fork [OF assms] pb prod.case)
  moreover have "task ?inst1 = task inst" "err_before_exec ?inst1 = err_before_exec inst"
    by simp_all
  ultimately show ?thesis using rest by (intro exI [of _ inst'] exI [of _ process'] exI [of _ evs]) simp
qed

lemma queue_store_instance [simp]:
  "m_task_status_change_queue (store_instance inst jm) = m_task_status_change_queue jm"
  by (simp add: store_instance_def)

lemma fork_succeeded_cong:
  "task inst' = task inst \<Longrightarrow> fork_succeeded se inst' = fork_succeeded se inst"
  by (simp add: fork_succeeded_def IsCrun_def)

lemma fork_succeeded_upd [simp]:
  "fork_succeeded se (inst\<lparr>pwd_entry := a\<rparr>) = fork_succeeded se inst"
  "fork_succeeded se (inst\<lparr>cgroup_path := b\<rparr>) = fork_succeeded se inst"
  "fork_succeeded se (inst\<lparr>parsed_sh_script_path := c\<rparr>) = fork_succeeded se inst"
  by (simp_all add: fork_succeeded_def IsCrun_def)

lemma IsCalloc_upd [simp]:
  "IsCalloc (inst\<lparr>pwd_entry := a\<rparr>) = IsCalloc inst"
  "IsCalloc (inst\<lparr>cgroup_path := b\<rparr>) = IsCalloc inst"
  by (simp_all add: IsCalloc_def)

lemma launch_after_spawn_fork:
  assumes "fork_succeeded se inst"
  shows "launch_queue (launch_after_spawn (SpawnProcessInInstance se ce inst process) tid jm)
           = Some (m_task_status_change_queue jm)"
proof -
  obtain i p e where "SpawnProcessInInstance se ce inst process = ParentReturns kOk i p e"
    using Spawn_outcome [OF assms, of ce process] by blast
  then show ?thesis
    by (auto simp: launch_after_spawn_def launch_queue_def Let_def)
qed

lemma Launch_after_fork:
  assumes reach: "launch_reaches_spawn le inst" and fork: "fork_succeeded se inst"
  shows "launch_queue (LaunchTaskInstanceMt le se ce inst jm) = Some (m_task_status_change_queue jm)"
  using reach fork
  by (auto simp: LaunchTaskInstanceMt_def launch_reaches_spawn_def Let_def launch_after_spawn_fork)

lemma mem_and_then:
  "x \<in> set (and_then evs k) = (x \<in> set evs \<or> (CAbort \<notin> set evs \<and> x \<in> set k))"
  by (simp add: and_then_def)

lemma child_credentials_cases:
  "child_credentials ce inst =
     [CSignalDefault SIGABRT, CSetgroups (child_gids inst),
      CSetresgid (gid (task inst)) (gid (task inst)) (gid (task inst)),
      CSetresuid (Uid (pwd_entry inst)) (Uid (pwd_entry inst)) (Uid (pwd_entry inst)),
      CChdir (cwd (task inst)), CSetpgid 0 0]
   \<or> CAbort \<in> set (child_credentials ce inst)"
  by (simp add: child_credentials_def and_then_def)

lemma child_credentials_no_read:
  "CReadCanStart m \<notin> set (child_credentials ce inst)"
  by (simp add: child_credentials_def and_then_def)

lemma child_credentials_no_exec:
  "CExecv p a e \<notin> set (child_credentials ce inst)"
  by (simp add: child_credentials_def and_then_def)

lemma child_credentials_no_open:
  "COpen f d \<notin> set (child_credentials ce inst)"
  by (simp add: child_credentials_def and_then_def)

lemma child_exec_phase_no_read:
  "CReadCanStart m \<notin> set (child_exec_phase se ce inst process lp res)"
  by (simp add: child_exec_phase_def batch_fd_setup_def mem_and_then Let_def)

lemma child_branch_read:
  assumes "CReadCanStart m \<in> set (child_branch se ce inst process lp res)"
  shows "m = read_can_start ce
       \<and> take 8 (child_branch se ce inst process lp res) =
           [CSignalDefault SIGABRT, CSetgroups (child_gids inst),
            CSetresgid (gid (task inst)) (gid (task inst)) (gid (task inst)),
            CSetresuid (Uid (pwd_entry inst)) (Uid (pwd_entry inst)) (Uid (pwd_entry inst)),
            CChdir (cwd (task inst)), CSetpgid 0 0,
            CClose (fst (ctrl_sock_pair se)), CReadCanStart m]"
proof -
  have na: "CAbort \<notin> set (child_credentials ce inst)"
    using assms by (auto simp: child_branch_def mem_and_then child_credentials_no_read)
  then have cred: "child_credentials ce inst =
     [CSignalDefault SIGABRT, CSetgroups (child_gids inst),
      CSetresgid (gid (task inst)) (gid (task inst)) (gid (task inst)),
      CSetresuid (Uid (pwd_entry inst)) (Uid (pwd_entry inst)) (Uid (pwd_entry inst)),
      CChdir (cwd (task inst)), CSetpgid 0 0]"
    using child_credentials_cases [of ce inst] by blast
  have m: "m = read_can_start ce"
    using assms by (auto simp: child_branch_def mem_and_then child_credentials_no_read child_exec_phase_no_read split: if_splits)
  show ?thesis
    using m by (simp add: child_branch_def cred and_then_def)
qed

lemma child_branch_exec:
  assumes "CExecv p a e \<in> set (child_branch se ce inst process lp res)"
  shows "read_can_start ce = Some True
       \<and> precedes (CReadCanStart (Some True)) (CExecv p a e) (child_branch se ce inst process lp res)"
proof -
  have na: "CAbort \<notin> set (child_credentials ce inst)"
    using assms by (auto simp: child_branch_def mem_and_then child_credentials_no_exec)
  have ok: "read_can_start ce = Some True"
    using assms by (auto simp: child_branch_def mem_and_then child_credentials_no_exec split: if_splits)
  have inx: "CExecv p a e \<in> set (child_exec_phase se ce inst process lp res)"
    using assms ok by (auto simp: child_branch_def mem_and_then child_credentials_no_exec)
  have "child_branch se ce inst process lp res =
          child_credentials ce inst @ [CClose (fst (ctrl_sock_pair se)), CReadCanStart (Some True)]
          @ child_exec_phase se ce inst process lp res"
    using na ok by (simp add: child_branch_def and_then_def)
  then show ?thesis
    using ok inx by (simp add: precedes_append_notin child_credentials_no_read)
qed

lemma child_branch_open:
  assumes "COpen f d \<in> set (child_branch se ce inst process lp res)"
  shows "precedes (CReadCanStart (Some True)) (COpen f d) (child_branch se ce inst process lp res)"
proof -
  have na: "CAbort \<notin> set (child_credentials ce inst)"
    using assms by (auto simp: child_branch_def mem_and_then child_credentials_no_open)
  have ok: "read_can_start ce = Some True"
    using assms by (auto simp: child_branch_def mem_and_then child_credentials_no_open split: if_splits)
  have inx: "COpen f d \<in> set (child_exec_phase se ce inst process lp res)"
    using assms ok by (auto simp: child_branch_def mem_and_then child_credentials_no_open)
  have "child_branch se ce inst process lp res =
          child_credentials ce inst @ [CClose (fst (ctrl_sock_pair se)), CReadCanStart (Some True)]
          @ child_exec_phase se ce inst process lp res"
    using na ok by (simp add: child_branch_def and_then_def)
  then show ?thesis
    using inx by (simp add: precedes_append_notin child_credentials_no_read)
qed

lemma child_branch_refused:
  assumes "read_can_start ce \<noteq> Some True"
  shows "CExecv p a e \<notin> set (child_branch se ce inst process lp res)
       \<and> CAbort \<in> set (child_branch se ce inst process lp res)"
  using assms by (auto simp: child_branch_def mem_and_then child_credentials_no_exec)

lemma parent_branch_send:
  assumes "PSendCanStart True ok \<in> set (snd (snd (snd (parent_branch se inst process lp))))"
  shows "MigrateProcIn_ok se
       \<and> precedes (PMigrateProcIn (fork_result se) True) (PSendCanStart True ok)
            (snd (snd (snd (parent_branch se inst process lp))))"
  using assms
  by (auto simp: parent_branch_def AskChildToSuicide_def KillProcessInstance_def Let_def
      precedes_append_notin split: if_splits)


lemma parent_branch_never_sends_false:
  "PSendCanStart False r \<notin> set (snd (snd (snd (parent_branch se inst process lp))))"
  by (simp add: parent_branch_def AskChildToSuicide_def KillProcessInstance_def Let_def)
lemma child_events_Spawn:
  "child_events (SpawnProcessInInstance se ce inst process) = []
   \<or> (\<exists>inst1 lp res. task inst1 = task inst \<and> pwd_entry inst1 = pwd_entry inst
        \<and> child_events (SpawnProcessInInstance se ce inst process)
            = child_branch se ce inst1 process lp res)"
proof (cases "SpawnProcessInInstance se ce inst process")
  case (ParentReturns err i p evs)
  then show ?thesis by (simp add: child_events_def)
next
  case (ChildRuns evs)
  from Spawn_in_child [OF this] obtain res where
    "evs = child_branch se ce (with_msg_fd se inst) process (crun_launch_pty inst) res" ..
  with ChildRuns have "task (with_msg_fd se inst) = task inst \<and> pwd_entry (with_msg_fd se inst) = pwd_entry inst
      \<and> child_events (SpawnProcessInInstance se ce inst process)
            = child_branch se ce (with_msg_fd se inst) process (crun_launch_pty inst) res"
    by (simp add: child_events_def)
  then show ?thesis by blast
qed

lemma parent_events_Spawn:
  "parent_events (SpawnProcessInInstance se ce inst process) = []
   \<or> (\<exists>inst1 lp. parent_events (SpawnProcessInInstance se ce inst process)
            = snd (snd (snd (parent_branch se inst1 process lp))))"
proof (cases "fork_succeeded se inst")
  case True
  have "parent_events (SpawnProcessInInstance se ce inst process)
            = snd (snd (snd (parent_branch se (with_msg_fd se inst) process (crun_launch_pty inst))))"
    by (simp only: Spawn_after_fork [OF True]) (simp add: parent_events_def split: prod.splits)
  then show ?thesis by blast
next
  case False
  then show ?thesis by (simp add: Spawn_before_fork)
qed

lemma child_gids_set: "set (child_gids inst) = {Gid (pwd_entry inst), gid (task inst)}"
  by (auto simp: child_gids_def)

lemma child_gids_cong:
  "task inst1 = task inst \<Longrightarrow> pwd_entry inst1 = pwd_entry inst \<Longrightarrow> child_gids inst1 = child_gids inst"
  by (simp add: child_gids_def)


lemma Spawn_never_sends_false:
  "PSendCanStart False r \<notin> set (parent_events (SpawnProcessInInstance se ce inst process))"
proof -
  from parent_events_Spawn [of se ce inst process]
  consider "parent_events (SpawnProcessInInstance se ce inst process) = []"
    | inst1 lp where "parent_events (SpawnProcessInInstance se ce inst process)
                        = snd (snd (snd (parent_branch se inst1 process lp)))"
    by blast
  then show ?thesis
  proof cases
    case 1
    then show ?thesis by simp
  next
    case 2
    then show ?thesis by (simp add: parent_branch_never_sends_false)
  qed
qed

text \<open>The two traces of the launch of job 42, evaluated.\<close>

lemma demo_parent_events:
  "parent_events (SpawnProcessInInstance (demo_spawn_env\<lparr>fork_result := 1234\<rparr>) demo_child_env
      demo_instance demo_process)
   = [PSetPid 1234, PClose 8, PMigrateProcIn 1234 True, PSendCanStart True True,
      PReadChildReady True, PClose 7]"
  by (simp add: SpawnProcessInInstance_def demo_spawn_env_def demo_instance_def demo_task_def
      crun_launch_pty_def with_msg_fd_def IsCrun_def parent_branch_def parent_events_def Let_def)

lemma demo_child_events:
  "child_events (SpawnProcessInInstance (demo_spawn_env\<lparr>fork_result := 0\<rparr>) demo_child_env
      demo_instance demo_process)
   = [CSignalDefault SIGABRT, CSetgroups [1000], CSetresgid 1000 1000 1000,
      CSetresuid 1000 1000 1000, CChdir ''/tmp'', CSetpgid 0 0, CClose 7,
      CReadCanStart (Some True), COpen ''/tmp/Crane-42.out'' 12, CDup2 12 1, CDup2 12 2,
      CClose 12, CSendChildReady True, CClose 8, CClose 0, CCloseFdFrom 3, CClearenv,
      CExecv ''/bin/bash'' [''CraneScript'', ''/var/crane/script/Crane-42.sh'']
        (child_environ (\<lambda>d. Map.empty) 0 Map.empty demo_instance demo_res)]"
  by (simp add: SpawnProcessInInstance_def demo_spawn_env_def demo_child_env_def
      demo_instance_def demo_task_def demo_pwd_def demo_process_def
      crun_launch_pty_def with_msg_fd_def IsCrun_def child_branch_def child_credentials_def
      child_exec_phase_def batch_fd_setup_def child_gids_def child_argv_def and_then_def
      child_events_def Let_def)

lemma demo_eof_child_events:
  "demo_eof_child
   = [CSignalDefault SIGABRT, CSetgroups [1000], CSetresgid 1000 1000 1000,
      CSetresuid 1000 1000 1000, CChdir ''/tmp'', CSetpgid 0 0, CClose 7,
      CReadCanStart None, CAbort]"
  by (simp add: demo_eof_child_def SpawnProcessInInstance_def demo_spawn_env_def demo_child_env_def
      demo_instance_def demo_task_def demo_pwd_def demo_process_def
      crun_launch_pty_def with_msg_fd_def IsCrun_def child_branch_def child_credentials_def
      child_gids_def and_then_def
      child_events_def Let_def)

lemma demo_failed_migration_events:
  "parent_events (SpawnProcessInInstance demo_failed_migration demo_child_env
      demo_instance demo_process)
   = [PSetPid 1234, PClose 8, PMigrateProcIn 1234 False, PBufferCanStart False True, PClose 7]"
  by (simp add: SpawnProcessInInstance_def demo_failed_migration_def demo_spawn_env_def
      demo_instance_def demo_task_def
      crun_launch_pty_def with_msg_fd_def IsCrun_def parent_branch_def AskChildToSuicide_def
      parent_events_def Let_def)

section \<open>Environment and output paths\<close>

lemma emplace_apply: "emplace k v m k' = (if k' = k \<and> m k = None then Some v else m k')"
  by (simp add: emplace_def split: option.splits)

lemma emplace_keeps: "m k = Some v \<Longrightarrow> emplace k' v' m k = Some v"
  by (auto simp: emplace_apply)

lemma emplace_list_keeps: "m k = Some v \<Longrightarrow> emplace_list kvs m k = Some v"
  by (induction kvs m rule: emplace_list.induct) (simp_all add: emplace_keeps)

lemma GetTaskEnvMap_job_env_wins:
  assumes "env (task inst) k = Some v"
  shows "GetTaskEnvMap inst k = Some v"
proof -
  have "emplace_map (env (task inst)) Map.empty k = Some v"
    using assms by (simp add: emplace_map_def)
  then show ?thesis
    by (simp add: GetTaskEnvMap_def Let_def emplace_keeps emplace_list_keeps)
qed

lemma demo_override_env:
  "env (task demo_override_instance) ''CRANE_JOB_ID'' = Some ''999''"
  by (simp add: demo_override_instance_def)

lemma demo_override_id:
  "to_string (unat (task_id (task demo_override_instance))) = ''42''"
  by (simp add: demo_override_instance_def demo_task_def to_string.simps digit_char_def)









section \<open>Cgroup limits and allocation\<close>

lemma round_double_0_3: "cxx_round (of_nat cpu_base * double_0_3) = 19661"
  by (simp add: cxx_round_def cpu_base_def double_0_3_def floor_eq_iff)

lemma trunc_double_0_3: "cxx_trunc (of_nat cpu_base * double_0_3) = 19660"
  by (simp add: cxx_trunc_def cpu_base_def double_0_3_def floor_eq_iff)

lemma ModifyCgroup_demo:
  "ModifyCgroup demo_lib cg
     = (True, cg\<lparr>modify_calls := Suc (modify_calls cg), control_files := control_files cg ++ staged cg\<rparr>)"
  by (simp add: ModifyCgroup_def ModifyCgroup_from.simps demo_lib_def)

lemma SetController_demo:
  "SetController demo_lib c f v cg
     = (True, cg\<lparr>staged := (staged cg)(f \<mapsto> v), modify_calls := Suc (modify_calls cg),
                  control_files := control_files cg ++ (staged cg)(f \<mapsto> v)\<rparr>)"
  by (simp add: SetController_def ModifyCgroup_demo) (simp add: demo_lib_def)

lemma cpu_max_text: "to_string 19660 = ''19660''" "to_string cpu_base = ''65536''"
  "unat (19660 :: 64 word) = 19660" "(word_of_nat cpu_base :: 64 word) = 65536"
  by (simp_all add: to_string.simps digit_char_def cpu_base_def)

lemma Dedicated_Allocate_True:
  "fst (DedicatedResourceAllocator_Allocate menv iface request_resource cg) = True"
  by (simp add: DedicatedResourceAllocator_Allocate_def split: prod.splits)

lemma Dedicated_Allocate_not_False [simp]:
  "DedicatedResourceAllocator_Allocate menv iface request_resource cg \<noteq> (False, cg')"
  using Dedicated_Allocate_True [of menv iface request_resource cg] by auto

lemma Allocatable_ignores_device_access:
  "AllocatableResourceAllocator_Allocate (iface\<lparr>SetDeviceAccess := f\<rparr>) res cg
     = AllocatableResourceAllocator_Allocate iface res cg"
  by (simp add: AllocatableResourceAllocator_Allocate_def)

lemma returns_null_simps [simp]:
  "returns_null (Returned x) = (x = None)"
  "returns_null NullDereference = False"
  by (simp_all add: returns_null_def)


section \<open>The recovery scan\<close>

lemma demo_match: "match_cg_pattern ''Crane_Task_1'' = Some ''1''"
  "match_cg_pattern ''Crane_Task_2'' = Some ''2''"
  by (simp_all add: match_cg_pattern_def is_digit_def)

lemma demo_stoul: "stoul ''1'' = Some 1" "stoul ''2'' = Some 2"
  by (simp_all add: stoul_def decimal_def digit_val_def)

lemma demo_task_ids: "to_task_id (Suc 0) = 1" "to_task_id 2 = 2"
  by (simp_all add: to_task_id_def)

lemma legacy_spins:
  "RmJobCgroupsUnderControllerExcept_loop fuel rmdir {1} demo_walk removed = None"
  by (induction fuel) (simp_all add: demo_walk_def demo_match demo_stoul demo_task_ids)

text \<open>
  The unified scan in general: with no surviving job it removes nothing, and whatever
  it removes is the directory of a job in the set it was given.
\<close>

lemma V2_keeps_all_without_survivors:
  "RmCgroupsV2Except_loop fs_remove root_path {} entries removed = ScanReturns removed
   \<or> RmCgroupsV2Except_loop fs_remove root_path {} entries removed = UncaughtOutOfRange"
  by (induction entries) (auto split: option.splits)

lemma V2_removes_only_survivors:
  assumes "RmCgroupsV2Except_loop fs_remove root_path job_ids entries removed = ScanReturns out"
    and "p \<in> set out" and "p \<notin> set removed"
  shows "\<exists>it s n. it \<in> set entries \<and> p = root_path @ ''/'' @ d_name it
          \<and> match_cg_pattern (d_name it) = Some s \<and> stoul s = Some n
          \<and> to_task_id n \<in> job_ids"
  using assms
proof (induction entries arbitrary: removed)
  case Nil
  then show ?case by simp
next
  case (Cons it rest)
  show ?case
  proof (cases "d_is_directory it")
    case False
    with Cons.prems Cons.IH [of removed] show ?thesis by auto
  next
    case True
    show ?thesis
    proof (cases "match_cg_pattern (d_name it)")
      case None
      with True Cons.prems Cons.IH [of removed] show ?thesis by auto
    next
      case (Some s)
      show ?thesis
      proof (cases "stoul s")
        case None
        with True Some Cons.prems show ?thesis by simp
      next
        case (Some n)
        note n = this
        show ?thesis
        proof (cases "to_task_id n \<in> job_ids")
          case False
          with True \<open>match_cg_pattern (d_name it) = Some s\<close> n Cons.prems Cons.IH [of removed]
          show ?thesis by auto
        next
          case inj: True
          show ?thesis
          proof (cases "fs_remove (root_path @ ''/'' @ d_name it)")
            case Removed
            show ?thesis
            proof (cases "p = root_path @ ''/'' @ d_name it")
              case True
              with \<open>d_is_directory it\<close> \<open>match_cg_pattern (d_name it) = Some s\<close> n inj
              show ?thesis by auto
            next
              case False
              with True Removed \<open>d_is_directory it\<close> \<open>match_cg_pattern (d_name it) = Some s\<close> n inj
                Cons.prems Cons.IH [of "removed @ [root_path @ ''/'' @ d_name it]"]
              show ?thesis by auto
            qed
          next
            case NotThere
            with \<open>d_is_directory it\<close> \<open>match_cg_pattern (d_name it) = Some s\<close> n inj
                Cons.prems Cons.IH [of removed]
            show ?thesis by auto
          next
            case Throws
            with \<open>d_is_directory it\<close> \<open>match_cg_pattern (d_name it) = Some s\<close> n inj Cons.prems
            show ?thesis by auto
          qed
        qed
      qed
    qed
  qed
qed


section \<open>The launch and what follows it\<close>

lemma Launch_reaches:
  assumes "launch_reaches_spawn le inst"
  shows "\<exists>inst3 sh. LaunchTaskInstanceMt le se ce inst jm
             = launch_after_spawn (SpawnProcessInInstance se ce inst3 (launch_process sh inst3))
                 (task_id (task inst)) jm
           \<and> task inst3 = task inst \<and> err_before_exec inst3 = err_before_exec inst"
proof -
  from assms obtain y where y: "AllocateAndGetCgroup le = Some y"
    by (auto simp: launch_reaches_spawn_def)
  let ?sh = "CranedScriptDir le @ ''/Crane-'' @ to_string (unat (task_id (task inst))) @ ''.sh''"
  let ?i3 = "inst\<lparr>pwd_entry := pwd_lookup le, cgroup_path := y, parsed_sh_script_path := ?sh\<rparr>"
  have "LaunchTaskInstanceMt le se ce inst jm
          = launch_after_spawn (SpawnProcessInInstance se ce ?i3 (launch_process ?sh ?i3))
              (task_id (task inst)) jm"
    using assms y by (simp add: LaunchTaskInstanceMt_def launch_reaches_spawn_def Let_def)
  moreover have "task ?i3 = task inst" "err_before_exec ?i3 = err_before_exec inst"
    by simp_all
  ultimately show ?thesis by blast
qed

lemma Launch_registers:
  assumes reach: "launch_reaches_spawn le inst" and fork: "fork_succeeded se inst"
  shows "\<exists>jm1 inst'. LaunchTaskInstanceMt le se ce inst jm = LaunchReturns jm1
     \<and> m_task_status_change_queue jm1 = m_task_status_change_queue jm
     \<and> ctld_status_changes jm1 = ctld_status_changes jm
     \<and> erased_tasks jm1 = erased_tasks jm
     \<and> m_task_map jm1 = (m_task_map jm)(task_id (task inst) \<mapsto> inst')
     \<and> err_before_exec inst' = spawn_error se (err_before_exec inst)
     \<and> processes inst' (fork_result se) \<noteq> None
     \<and> m_pid_task_map jm1 = emplace (fork_result se) (task_id (task inst)) (m_pid_task_map jm)
     \<and> m_pid_proc_map jm1 (fork_result se) \<noteq> None"
proof -
  from Launch_reaches [OF reach, of se ce jm] obtain inst3 sh where
    L: "LaunchTaskInstanceMt le se ce inst jm
          = launch_after_spawn (SpawnProcessInInstance se ce inst3 (launch_process sh inst3))
              (task_id (task inst)) jm"
    and t: "task inst3 = task inst" and e: "err_before_exec inst3 = err_before_exec inst"
    by blast
  have "fork_succeeded se inst3" using fork fork_succeeded_cong [OF t] by simp
  from Spawn_outcome [OF this, of ce "launch_process sh inst3"] obtain i p evs where
    S: "SpawnProcessInInstance se ce inst3 (launch_process sh inst3) = ParentReturns kOk i p evs"
    and ti: "task i = task inst3" and pp: "proc_pid p = fork_result se"
    and ei: "err_before_exec i = spawn_error se (err_before_exec inst3)"
    by blast
  let ?i = "i\<lparr>processes := emplace (proc_pid p) p (processes i)\<rparr>"
  let ?jm0 = "store_instance ?i jm"
  let ?jm1 = "?jm0\<lparr>m_pid_task_map := emplace (proc_pid p) (task_id (task inst)) (m_pid_task_map ?jm0),
                   m_pid_proc_map := emplace (proc_pid p) p (m_pid_proc_map ?jm0)\<rparr>"
  have R: "LaunchTaskInstanceMt le se ce inst jm = LaunchReturns ?jm1"
    by (simp add: L S launch_after_spawn_def Let_def)
  have "m_task_status_change_queue ?jm1 = m_task_status_change_queue jm"
       "ctld_status_changes ?jm1 = ctld_status_changes jm"
       "erased_tasks ?jm1 = erased_tasks jm"
       "m_task_map ?jm1 = (m_task_map jm)(task_id (task inst) \<mapsto> ?i)"
       "err_before_exec ?i = spawn_error se (err_before_exec inst)"
       "processes ?i (fork_result se) \<noteq> None"
       "m_pid_task_map ?jm1 = emplace (fork_result se) (task_id (task inst)) (m_pid_task_map jm)"
       "m_pid_proc_map ?jm1 (fork_result se) \<noteq> None"
    by (simp_all add: store_instance_def ti t pp ei e emplace_apply)
  with R show ?thesis by blast
qed

text \<open>
  After a launch whose fork succeeded, the child-termination callback and the
  status-change callback forward nothing for the job and leave its instance in the task
  map, whatever \<open>waitpid\<close> answers.
\<close>

lemma launch_then_reap_silent:
  assumes reach: "launch_reaches_spawn le inst" and fork: "fork_succeeded se inst"
    and quiet: "filter (\<lambda>e. sc_task_id e = task_id (task inst)) (m_task_status_change_queue jm) = []"
  shows "\<exists>jm' inst'. launch_then_reap le se ce inst ws jm = Some jm'
     \<and> forwarded_for (task_id (task inst)) jm' = forwarded_for (task_id (task inst)) jm
     \<and> erase_count (task_id (task inst)) jm' = erase_count (task_id (task inst)) jm
     \<and> m_task_status_change_queue jm' = []
     \<and> m_task_map jm' (task_id (task inst)) = Some inst'
     \<and> err_before_exec inst' = spawn_error se (err_before_exec inst)"
proof -
  from Launch_registers [OF reach fork, of ce jm] obtain jm1 inst' where
    L: "LaunchTaskInstanceMt le se ce inst jm = LaunchReturns jm1"
    and q: "m_task_status_change_queue jm1 = m_task_status_change_queue jm"
    and c: "ctld_status_changes jm1 = ctld_status_changes jm"
    and r: "erased_tasks jm1 = erased_tasks jm"
    and m: "m_task_map jm1 = (m_task_map jm)(task_id (task inst) \<mapsto> inst')"
    and e: "err_before_exec inst' = spawn_error se (err_before_exec inst)"
    by blast
  have reap: "EvSigchldCb ws j = j" for j
    by (induction ws j rule: EvSigchldCb.induct) auto
  let ?jm' = "EvCleanTaskStatusChangeQueueCb jm1"
  have 1: "launch_then_reap le se ce inst ws jm = Some ?jm'"
    by (simp add: launch_then_reap_def L reap)
  have 2: "forwarded_for (task_id (task inst)) ?jm' = forwarded_for (task_id (task inst)) jm"
    by (simp add: EvClean_forwarded q quiet m) (simp add: forwarded_for_def c)
  have 3: "erase_count (task_id (task inst)) ?jm' = erase_count (task_id (task inst)) jm"
    by (simp add: EvClean_erased q quiet m) (simp add: erase_count_def r)
  have 4: "m_task_map ?jm' (task_id (task inst)) = Some inst'"
    by (simp add: EvClean_map q quiet m)
  from 1 2 3 4 e EvClean_queue [of jm1] show ?thesis by blast
qed

lemma demo_launch_facts:
  "launch_reaches_spawn demo_launch_env demo_instance"
  "fork_succeeded demo_spawn_env demo_instance"
  "fork_succeeded demo_failed_migration demo_instance"
  "task_id (task demo_instance) = 42"
  "m_task_map demo_admitted_manager 42 = Some demo_instance"
  "m_task_status_change_queue demo_admitted_manager = []"
  "forwarded_for 42 demo_admitted_manager = []"
  "erase_count 42 demo_admitted_manager = 0"
  "m_pid_task_map demo_admitted_manager = Map.empty"
  "err_before_exec demo_instance = kOk"
  "fork_result demo_spawn_env = 1234"
  "fork_result demo_failed_migration = 1234"
  "fst (ctrl_sock_pair demo_failed_migration) = 7"
  "\<not> MigrateProcIn_ok demo_failed_migration"
  "serialize_suicide_ok demo_failed_migration"
  "spawn_error demo_failed_migration kOk = kCgroupError"
  "spawn_error demo_spawn_env kOk = kOk"
  by (simp_all add: launch_reaches_spawn_def fork_succeeded_def demo_launch_env_def
      demo_instance_def demo_task_def demo_pwd_def IsCalloc_def IsCrun_def demo_spawn_env_def
      demo_failed_migration_def demo_admitted_manager_def forwarded_for_def erase_count_def
      spawn_error_def)

section \<open>The claims\<close>

text \<open>
  Claim C1 against the code. With the directories of jobs 1 and 2 under the root and
  job 1 surviving, the unified scan never removes the stale \<open>Crane_Task_2\<close>, whatever
  the file system answers, and where the removal succeeds it removes \<open>Crane_Task_1\<close>,
  the survivor: its test \<open>if (!job_ids.contains(job_id)) continue;\<close> is the wrong way
  round. The legacy scan does not return at all: on the survivor's directory it executes
  \<open>continue\<close> before \<open>cgroup_walk_tree_next\<close>, so it meets the same entry again,
  whatever the fuel.
\<close>

theorem recovery_scan_removes_survivor:
  "''/sys/fs/cgroup/Crane_Task_2''
     \<notin> set (removed_paths (RmCgroupsV2Except fs_remove (Some demo_listing) ''/sys/fs/cgroup'' {1}))
   \<and> RmCgroupsV2Except (\<lambda>p. Removed) (Some demo_listing) ''/sys/fs/cgroup'' {1}
     = ScanReturns [''/sys/fs/cgroup/Crane_Task_1'']
   \<and> (\<forall>fuel. RmJobCgroupsUnderControllerExcept fuel rmdir demo_walk {1} = None)"
proof -
  have "''/sys/fs/cgroup/Crane_Task_2''
     \<notin> set (removed_paths (RmCgroupsV2Except fs_remove (Some demo_listing) ''/sys/fs/cgroup'' {1}))"
    by (cases "fs_remove ''/sys/fs/cgroup/Crane_Task_1''")
       (simp_all add: RmCgroupsV2Except_def demo_listing_def demo_match demo_stoul demo_task_ids
          removed_paths_def)
  moreover have "RmCgroupsV2Except (\<lambda>p. Removed) (Some demo_listing) ''/sys/fs/cgroup'' {1}
     = ScanReturns [''/sys/fs/cgroup/Crane_Task_1'']"
    by (simp add: RmCgroupsV2Except_def demo_listing_def demo_match demo_stoul demo_task_ids)
  moreover have "RmJobCgroupsUnderControllerExcept fuel rmdir demo_walk {1} = None" for fuel
    by (simp add: RmJobCgroupsUnderControllerExcept_def legacy_spins)
  ultimately show ?thesis by blast
qed

text \<open>
  Claim C2, as the code has it. Take a job that has been admitted (its instance is in
  the task map, no status change for it is queued) and whose launch gets through
  \<open>fork\<close>. After \<open>LaunchTaskInstanceMt_\<close>, the child-termination callback and the
  status-change callback, whatever \<open>waitpid\<close> answered and whatever happened to the
  child, no status change for the job has been handed to the controller client, the
  instance has not been erased and is still in the task map, and the status-change
  queue is empty: nothing is left that could forward or erase later. Not one terminal
  status change is forwarded, where the claim says exactly one.
\<close>

theorem admitted_job_never_reported:
  assumes admitted: "m_task_map jm (task_id (task inst)) = Some inst"
    and reach: "launch_reaches_spawn le inst"
    and fork: "fork_succeeded se inst"
    and quiet: "filter (\<lambda>e. sc_task_id e = task_id (task inst)) (m_task_status_change_queue jm) = []"
  shows "\<exists>jm'. launch_then_reap le se ce inst ws jm = Some jm'
     \<and> forwarded_for (task_id (task inst)) jm' = forwarded_for (task_id (task inst)) jm
     \<and> erase_count (task_id (task inst)) jm' = erase_count (task_id (task inst)) jm
     \<and> m_task_map jm' (task_id (task inst)) \<noteq> None
     \<and> m_task_status_change_queue jm' = []"
  using launch_then_reap_silent [OF reach fork quiet, of ce ws] by auto

theorem admitted_job_never_reported_witness:
  "m_task_map demo_admitted_manager 42 = Some demo_instance
   \<and> launch_reaches_spawn demo_launch_env demo_instance
   \<and> fork_succeeded demo_spawn_env demo_instance
   \<and> filter (\<lambda>e. sc_task_id e = 42) (m_task_status_change_queue demo_admitted_manager) = []
   \<and> (\<exists>jm'. launch_then_reap demo_launch_env demo_spawn_env demo_child_env demo_instance
               demo_waitpid demo_admitted_manager = Some jm'
        \<and> forwarded_for 42 jm' = []
        \<and> erase_count 42 jm' = 0
        \<and> m_task_map jm' 42 \<noteq> None
        \<and> m_task_status_change_queue jm' = [])"
proof -
  have a: "m_task_map demo_admitted_manager (task_id (task demo_instance)) = Some demo_instance"
    by (simp add: demo_launch_facts)
  have q: "filter (\<lambda>e. sc_task_id e = task_id (task demo_instance))
             (m_task_status_change_queue demo_admitted_manager) = []"
    by (simp add: demo_launch_facts)
  from admitted_job_never_reported [OF a demo_launch_facts(1) demo_launch_facts(2) q,
      of demo_child_env demo_waitpid]
  have "\<exists>jm'. launch_then_reap demo_launch_env demo_spawn_env demo_child_env demo_instance
               demo_waitpid demo_admitted_manager = Some jm'
        \<and> forwarded_for 42 jm' = []
        \<and> erase_count 42 jm' = 0
        \<and> m_task_map jm' 42 \<noteq> None
        \<and> m_task_status_change_queue jm' = []"
    by (simp add: demo_launch_facts)
  then show ?thesis
    by (simp add: demo_launch_facts)
qed
text \<open>
  Claim C3, as the code has it. The signal-handling loop reaps with \<open>waitpid\<close> until no
  child is left and does nothing else for a reaped child: whatever \<open>waitpid\<close> answers,
  the manager's state, its status-change queue included, is what it was before. No
  instance is looked up and no Completed or Failed status change is enqueued.
\<close>

theorem EvSigchldCb_changes_nothing: "EvSigchldCb ws jm = jm"
  by (induction ws jm rule: EvSigchldCb.induct) auto

text \<open>
  Claim C4, as the code has it. The parent sends the \<open>CanStartMessage\<close> with
  \<open>ok = true\<close> only after \<open>MigrateProcIn\<close> has attached the child's pid to the
  job's cgroup, and it never sends one with \<open>ok = false\<close>. The child changes its
  credentials and session first, right after \<open>fork\<close>: \<open>setgroups\<close> with the
  primary gid and the task's gid, \<open>setresgid\<close>, \<open>setresuid\<close>, \<open>chdir(cwd)\<close>,
  \<open>setpgid(0, 0)\<close>, in this order; only then does it read the message. On a failed
  read or \<open>ok = false\<close> it aborts and never calls \<open>execv\<close>; every file it opens
  and every \<open>execv\<close> come after a read of \<open>ok = true\<close>. So, the message being
  the parent's, the child is in the job's cgroup before it calls \<open>execv\<close>.
\<close>

theorem can_start_handshake:
  assumes pid: "0 < pid"
  shows "let pevs = parent_events (SpawnProcessInInstance (se\<lparr>fork_result := pid\<rparr>) ce inst process);
             cevs = child_events (SpawnProcessInInstance (se\<lparr>fork_result := 0\<rparr>) ce inst process)
         in (\<forall>ok. PSendCanStart True ok \<in> set pevs \<longrightarrow>
                 precedes (PMigrateProcIn pid True) (PSendCanStart True ok) pevs)
          \<and> (\<forall>r. PSendCanStart False r \<notin> set pevs)
          \<and> (\<forall>m. CReadCanStart m \<in> set cevs \<longrightarrow>
                 m = read_can_start ce
               \<and> take 8 cevs =
                   [CSignalDefault SIGABRT, CSetgroups (child_gids inst),
                    CSetresgid (gid (task inst)) (gid (task inst)) (gid (task inst)),
                    CSetresuid (Uid (pwd_entry inst)) (Uid (pwd_entry inst)) (Uid (pwd_entry inst)),
                    CChdir (cwd (task inst)), CSetpgid 0 0,
                    CClose (fst (ctrl_sock_pair se)), CReadCanStart m])
          \<and> set (child_gids inst) = {Gid (pwd_entry inst), gid (task inst)}
          \<and> (read_can_start ce \<noteq> Some True \<longrightarrow>
                 (\<forall>p a e. CExecv p a e \<notin> set cevs) \<and> (cevs \<noteq> [] \<longrightarrow> CAbort \<in> set cevs))
          \<and> (\<forall>f d. COpen f d \<in> set cevs \<longrightarrow>
                 precedes (CReadCanStart (Some True)) (COpen f d) cevs)
          \<and> (\<forall>p a e. CExecv p a e \<in> set cevs \<longrightarrow>
                 precedes (CReadCanStart (Some True)) (CExecv p a e) cevs
               \<and> (delivered pevs (read_can_start ce) \<longrightarrow>
                    precedes (PMigrateProcIn pid True) (PSendCanStart True True) pevs))"
proof -
  let ?P = "SpawnProcessInInstance (se\<lparr>fork_result := pid\<rparr>) ce inst process"
  let ?C = "SpawnProcessInInstance (se\<lparr>fork_result := 0\<rparr>) ce inst process"
  have parent: "precedes (PMigrateProcIn pid True) (PSendCanStart True ok) (parent_events ?P)"
    if "PSendCanStart True ok \<in> set (parent_events ?P)" for ok
  proof -
    from parent_events_Spawn [of "se\<lparr>fork_result := pid\<rparr>" ce inst process] that
    obtain inst1 lp where
      "parent_events ?P = snd (snd (snd (parent_branch (se\<lparr>fork_result := pid\<rparr>) inst1 process lp)))"
      by auto
    with that parent_branch_send [of ok "se\<lparr>fork_result := pid\<rparr>" inst1 process lp]
    show ?thesis by simp
  qed
  have no_false: "PSendCanStart False r \<notin> set (parent_events ?P)" for r
    by (rule Spawn_never_sends_false)
  have child_open: "precedes (CReadCanStart (Some True)) (COpen f d) (child_events ?C)"
    if "COpen f d \<in> set (child_events ?C)" for f d
  proof -
    from child_events_Spawn [of "se\<lparr>fork_result := 0\<rparr>" ce inst process] that
    obtain inst1 lp res where
      c: "child_events ?C = child_branch (se\<lparr>fork_result := 0\<rparr>) ce inst1 process lp res"
      by auto
    from that c child_branch_open [of f d "se\<lparr>fork_result := 0\<rparr>" ce inst1 process lp res]
    show ?thesis by simp
  qed
  have child_read: "m = read_can_start ce
               \<and> take 8 (child_events ?C) =
                   [CSignalDefault SIGABRT, CSetgroups (child_gids inst),
                    CSetresgid (gid (task inst)) (gid (task inst)) (gid (task inst)),
                    CSetresuid (Uid (pwd_entry inst)) (Uid (pwd_entry inst)) (Uid (pwd_entry inst)),
                    CChdir (cwd (task inst)), CSetpgid 0 0,
                    CClose (fst (ctrl_sock_pair se)), CReadCanStart m]"
    if "CReadCanStart m \<in> set (child_events ?C)" for m
  proof -
    from child_events_Spawn [of "se\<lparr>fork_result := 0\<rparr>" ce inst process] that
    obtain inst1 lp res where i: "task inst1 = task inst" "pwd_entry inst1 = pwd_entry inst"
      and c: "child_events ?C = child_branch (se\<lparr>fork_result := 0\<rparr>) ce inst1 process lp res"
      by auto
    from that c child_branch_read [of m "se\<lparr>fork_result := 0\<rparr>" ce inst1 process lp res]
    show ?thesis by (simp add: i child_gids_cong [OF i])
  qed
  have refused: "(\<forall>p a e. CExecv p a e \<notin> set (child_events ?C))
                \<and> (child_events ?C \<noteq> [] \<longrightarrow> CAbort \<in> set (child_events ?C))"
    if "read_can_start ce \<noteq> Some True"
    using child_events_Spawn [of "se\<lparr>fork_result := 0\<rparr>" ce inst process] that
      child_branch_refused [OF that]
    by (metis empty_iff list.set(1))
  have child_exec: "read_can_start ce = Some True
       \<and> precedes (CReadCanStart (Some True)) (CExecv p a e) (child_events ?C)"
    if "CExecv p a e \<in> set (child_events ?C)" for p a e
  proof -
    from child_events_Spawn [of "se\<lparr>fork_result := 0\<rparr>" ce inst process] that
    obtain inst1 lp res where
      c: "child_events ?C = child_branch (se\<lparr>fork_result := 0\<rparr>) ce inst1 process lp res"
      by auto
    from that c child_branch_exec [of p a e "se\<lparr>fork_result := 0\<rparr>" ce inst1 process lp res]
    show ?thesis by simp
  qed
  have member: "precedes (PMigrateProcIn pid True) (PSendCanStart True True) (parent_events ?P)"
    if "CExecv p a e \<in> set (child_events ?C)" "delivered (parent_events ?P) (read_can_start ce)" for p a e
  proof -
    have "read_can_start ce = Some True" using child_exec [OF that(1)] by simp
    with that(2) have "PSendCanStart True True \<in> set (parent_events ?P)"
      by (simp add: delivered_def)
    then show ?thesis by (rule parent)
  qed
  show ?thesis
    unfolding Let_def
    using parent no_false child_read refused child_open child_exec member child_gids_set [of inst]
    by blast
qed

lemma demo_fields:
  "child_gids demo_instance = [1000]"
  "gid (task demo_instance) = 1000"
  "Uid (pwd_entry demo_instance) = 1000"
  "cwd (task demo_instance) = ''/tmp''"
  "fst (ctrl_sock_pair demo_spawn_env) = 7"
  "read_can_start demo_child_env = Some True"
  by (simp_all add: child_gids_def demo_instance_def demo_task_def demo_pwd_def
      demo_spawn_env_def demo_child_env_def)

theorem can_start_handshake_witness:
  "(0::int) < 1234
   \<and> precedes (PMigrateProcIn 1234 True) (PSendCanStart True True)
        (parent_events (SpawnProcessInInstance (demo_spawn_env\<lparr>fork_result := 1234\<rparr>)
           demo_child_env demo_instance demo_process))
   \<and> take 8 (child_events (SpawnProcessInInstance (demo_spawn_env\<lparr>fork_result := 0\<rparr>)
           demo_child_env demo_instance demo_process))
       = [CSignalDefault SIGABRT, CSetgroups [1000], CSetresgid 1000 1000 1000,
          CSetresuid 1000 1000 1000, CChdir ''/tmp'', CSetpgid 0 0, CClose 7,
          CReadCanStart (Some True)]
   \<and> precedes (CReadCanStart (Some True)) (COpen ''/tmp/Crane-42.out'' 12)
        (child_events (SpawnProcessInInstance (demo_spawn_env\<lparr>fork_result := 0\<rparr>)
           demo_child_env demo_instance demo_process))
   \<and> precedes (CReadCanStart (Some True))
        (CExecv ''/bin/bash'' [''CraneScript'', ''/var/crane/script/Crane-42.sh'']
           (child_environ (\<lambda>d. Map.empty) 0 Map.empty demo_instance demo_res))
        (child_events (SpawnProcessInInstance (demo_spawn_env\<lparr>fork_result := 0\<rparr>)
           demo_child_env demo_instance demo_process))"
proof -
  let ?pevs = "parent_events (SpawnProcessInInstance (demo_spawn_env\<lparr>fork_result := 1234\<rparr>)
                 demo_child_env demo_instance demo_process)"
  let ?cevs = "child_events (SpawnProcessInInstance (demo_spawn_env\<lparr>fork_result := 0\<rparr>)
                 demo_child_env demo_instance demo_process)"
  let ?exec = "CExecv ''/bin/bash'' [''CraneScript'', ''/var/crane/script/Crane-42.sh'']
                 (child_environ (\<lambda>d. Map.empty) 0 Map.empty demo_instance demo_res)"
  have pos: "(0::int) < 1234" by simp
  note H = can_start_handshake [OF pos, of demo_spawn_env demo_child_env demo_instance
      demo_process, unfolded Let_def]
  have send: "PSendCanStart True True \<in> set ?pevs"
    by (simp only: demo_parent_events) simp
  have rd: "CReadCanStart (Some True) \<in> set ?cevs"
    by (simp only: demo_child_events) simp
  have ex: "?exec \<in> set ?cevs"
    by (simp only: demo_child_events) simp
  from H send have a: "precedes (PMigrateProcIn 1234 True) (PSendCanStart True True) ?pevs"
    by blast
  from H rd have "take 8 ?cevs =
      [CSignalDefault SIGABRT, CSetgroups (child_gids demo_instance),
       CSetresgid (gid (task demo_instance)) (gid (task demo_instance)) (gid (task demo_instance)),
       CSetresuid (Uid (pwd_entry demo_instance)) (Uid (pwd_entry demo_instance))
         (Uid (pwd_entry demo_instance)),
       CChdir (cwd (task demo_instance)), CSetpgid 0 0,
       CClose (fst (ctrl_sock_pair demo_spawn_env)), CReadCanStart (Some True)]"
    by blast
  then have b: "take 8 ?cevs =
      [CSignalDefault SIGABRT, CSetgroups [1000], CSetresgid 1000 1000 1000,
       CSetresuid 1000 1000 1000, CChdir ''/tmp'', CSetpgid 0 0, CClose 7,
       CReadCanStart (Some True)]"
    by (simp only: demo_fields)
  from H ex have c: "precedes (CReadCanStart (Some True)) ?exec ?cevs"
    by blast
  have op: "COpen ''/tmp/Crane-42.out'' 12 \<in> set ?cevs"
    by (simp only: demo_child_events) simp
  from H op have d: "precedes (CReadCanStart (Some True)) (COpen ''/tmp/Crane-42.out'' 12) ?cevs"
    by blast
  from pos a b d c show ?thesis by (intro conjI)
qed

text \<open>
  The claim as stated fails. In the launch in which every call succeeds the child calls
  \<open>setgroups\<close>, \<open>setresgid\<close>, \<open>setresuid\<close>, \<open>chdir\<close> and \<open>setpgid\<close>
  before it reads \<open>ok = true\<close>, not after. And a child whose read fails, as it does
  when the parent has closed the socket after a failed cgroup migration, has made all
  these calls and never reads \<open>ok = true\<close>.
\<close>

theorem credentials_before_can_start_counterexample:
  "precedes (CSetgroups [1000]) (CReadCanStart (Some True))
     (child_events (SpawnProcessInInstance (demo_spawn_env\<lparr>fork_result := 0\<rparr>)
        demo_child_env demo_instance demo_process))
   \<and> precedes (CSetpgid 0 0) (CReadCanStart (Some True))
     (child_events (SpawnProcessInInstance (demo_spawn_env\<lparr>fork_result := 0\<rparr>)
        demo_child_env demo_instance demo_process))
   \<and> \<not> precedes (CReadCanStart (Some True)) (CSetgroups [1000])
     (child_events (SpawnProcessInInstance (demo_spawn_env\<lparr>fork_result := 0\<rparr>)
        demo_child_env demo_instance demo_process))
   \<and> CSetgroups [1000] \<in> set demo_eof_child
   \<and> CSetresgid 1000 1000 1000 \<in> set demo_eof_child
   \<and> CSetresuid 1000 1000 1000 \<in> set demo_eof_child
   \<and> CChdir ''/tmp'' \<in> set demo_eof_child
   \<and> CSetpgid 0 0 \<in> set demo_eof_child
   \<and> CReadCanStart (Some True) \<notin> set demo_eof_child
   \<and> precedes (CSetgroups [1000]) (CReadCanStart None) demo_eof_child"
  by (simp add: demo_eof_child_events demo_child_events)
text \<open>
  Claim C5 against the code. \<open>GetTaskEnvMap\<close> builds the map with \<open>emplace\<close>, which
  keeps an existing entry, so a variable of the job's own environment wins over every
  later group of that function: for job 42 submitted with \<open>CRANE_JOB_ID=999\<close> the map,
  and the environment the child has at \<open>execv\<close>, hold \<open>CRANE_JOB_ID=999\<close>, not the
  job id \<open>42\<close> that the later group would set.
\<close>

theorem job_env_shadows_crane_job_id:
  "GetTaskEnvMap demo_override_instance ''CRANE_JOB_ID'' = Some ''999''
   \<and> child_environ (\<lambda>d. Map.empty) 0 Map.empty demo_override_instance demo_res ''CRANE_JOB_ID''
       = Some ''999''
   \<and> to_string (unat (task_id (task demo_override_instance))) = ''42''"
proof -
  have g: "GetTaskEnvMap demo_override_instance ''CRANE_JOB_ID'' = Some ''999''"
    by (rule GetTaskEnvMap_job_env_wins [OF demo_override_env])
  have "child_environ (\<lambda>d. Map.empty) 0 Map.empty demo_override_instance demo_res ''CRANE_JOB_ID''
       = Some ''999''"
    by (simp add: child_environ_def FuncSetEnv_def GetResourceEnvMapByResInNode_def
        emplace_apply setenv_accepts_def g Let_def)
  with g demo_override_id show ?thesis by simp
qed

text \<open>
  Claim C6 against the code. For a core limit of \<open>0.3\<close>, \<open>round(65536 * cores)\<close>
  is 19661. The legacy variant writes quota 19661 and period 65536, as claimed; the
  unified variant converts without rounding and writes \<open>19660 65536\<close> to
  \<open>cpu.max\<close>.
\<close>

theorem cpu_quota_v2_truncates:
  "cxx_round (of_nat cpu_base * double_0_3) = 19661
   \<and> written_by (CgroupV1_SetCpuCoreLimit demo_lib double_0_3 demo_cgroup) CPU_CFS_QUOTA_US
       = Some (True, Some (U64 19661))
   \<and> written_by (CgroupV1_SetCpuCoreLimit demo_lib double_0_3 demo_cgroup) CPU_CFS_PERIOD_US
       = Some (True, Some (U64 65536))
   \<and> written_by (CgroupV2_SetCpuCoreLimit demo_lib double_0_3 demo_cgroup) CPU_MAX_V2
       = Some (True, Some (Str ''19660 65536''))"
  by (simp add: written_by_def CgroupV1_SetCpuCoreLimit_def CgroupV2_SetCpuCoreLimit_def round_double_0_3 trunc_double_0_3
      to_uint64_def SetControllerValue_def SetControllerStr_def SetController_demo cpu_max_text Let_def)

text \<open>
  Claim C7, as the code has it. Once \<open>fork\<close> has succeeded and a later step of the
  parent fails, \<open>SpawnProcessInInstance_\<close> returns \<open>kOk\<close> and records the error in
  \<open>err_before_exec\<close>. After a failed write of \<open>ok = true\<close> or a failed read of the
  child's reply it sends \<open>SIGKILL\<close>. After a failed cgroup migration it serialises
  \<open>ok = false\<close> and closes the control socket without flushing: no message is ever
  sent, so no message can reach the child (whose read then fails), and \<open>SIGKILL\<close> is
  sent only when the serialisation itself fails. \<open>LaunchTaskInstanceMt_\<close> enqueues no
  status change of its own; it stores the instance with the recorded error and enters
  the child's pid in the instance and in the two pid maps, for the child-termination
  callback to find. That callback and the status-change callback then forward nothing:
  the job is never reported, its instance stays in the task map, and the recorded error
  is still there, unread.
\<close>

theorem post_fork_failure_never_reported:
  assumes fork: "fork_succeeded se inst"
    and reach: "launch_reaches_spawn le inst"
    and failure: "\<not> MigrateProcIn_ok se \<or> \<not> serialize_can_start_ok se \<or> \<not> flush_ok se
                  \<or> \<not> parse_child_ready_ok se"
    and quiet: "filter (\<lambda>e. sc_task_id e = task_id (task inst)) (m_task_status_change_queue jm) = []"
  shows "(\<exists>inst' process' evs.
            SpawnProcessInInstance se ce inst process = ParentReturns kOk inst' process' evs
          \<and> proc_pid process' = fork_result se
          \<and> err_before_exec inst'
              = (if MigrateProcIn_ok se then kProtobufError
                 else if serialize_suicide_ok se then kCgroupError else kProtobufError)
          \<and> (if MigrateProcIn_ok se then PKill (- fork_result se) SIGKILL \<in> set evs
              else (\<forall>b r. PSendCanStart b r \<notin> set evs)
                 \<and> (\<forall>b. \<not> delivered evs (Some b))
                 \<and> precedes (PBufferCanStart False (serialize_suicide_ok se))
                     (PClose (fst (ctrl_sock_pair se))) evs
                 \<and> (PKill (- fork_result se) SIGKILL \<in> set evs) = (\<not> serialize_suicide_ok se)))
       \<and> (\<exists>jm1 inst'.
            LaunchTaskInstanceMt le se ce inst jm = LaunchReturns jm1
          \<and> m_task_status_change_queue jm1 = m_task_status_change_queue jm
          \<and> m_task_map jm1 (task_id (task inst)) = Some inst'
          \<and> err_before_exec inst'
              = (if MigrateProcIn_ok se then kProtobufError
                 else if serialize_suicide_ok se then kCgroupError else kProtobufError)
          \<and> processes inst' (fork_result se) \<noteq> None
          \<and> m_pid_task_map jm1 = emplace (fork_result se) (task_id (task inst)) (m_pid_task_map jm)
          \<and> m_pid_proc_map jm1 (fork_result se) \<noteq> None)
       \<and> (\<exists>jm' inst'.
            launch_then_reap le se ce inst ws jm = Some jm'
          \<and> forwarded_for (task_id (task inst)) jm' = forwarded_for (task_id (task inst)) jm
          \<and> m_task_status_change_queue jm' = []
          \<and> m_task_map jm' (task_id (task inst)) = Some inst'
          \<and> err_before_exec inst'
              = (if MigrateProcIn_ok se then kProtobufError
                 else if serialize_suicide_ok se then kCgroupError else kProtobufError))"
proof -
  have err: "spawn_error se e
              = (if MigrateProcIn_ok se then kProtobufError
                 else if serialize_suicide_ok se then kCgroupError else kProtobufError)" for e
    using failure by (auto simp: spawn_error_def)
  from Spawn_outcome [OF fork, of ce process] obtain i p evs where
    S: "SpawnProcessInInstance se ce inst process = ParentReturns kOk i p evs"
    and pp: "proc_pid p = fork_result se"
    and ei: "err_before_exec i = spawn_error se (err_before_exec inst)"
    and ev: "(if \<not> MigrateProcIn_ok se
       then (\<forall>b r. PSendCanStart b r \<notin> set evs)
          \<and> precedes (PBufferCanStart False (serialize_suicide_ok se))
              (PClose (fst (ctrl_sock_pair se))) evs
          \<and> (PKill (- fork_result se) SIGKILL \<in> set evs) = (\<not> serialize_suicide_ok se)
       else if \<not> (serialize_can_start_ok se \<and> flush_ok se) \<or> \<not> parse_child_ready_ok se
       then PKill (- fork_result se) SIGKILL \<in> set evs
       else PKill (- fork_result se) SIGKILL \<notin> set evs
            \<and> PSendCanStart True True \<in> set evs)"
    by blast
  have ev': "(if MigrateProcIn_ok se then PKill (- fork_result se) SIGKILL \<in> set evs
              else (\<forall>b r. PSendCanStart b r \<notin> set evs)
                 \<and> (\<forall>b. \<not> delivered evs (Some b))
                 \<and> precedes (PBufferCanStart False (serialize_suicide_ok se))
                     (PClose (fst (ctrl_sock_pair se))) evs
                 \<and> (PKill (- fork_result se) SIGKILL \<in> set evs) = (\<not> serialize_suicide_ok se))"
    using ev failure by (auto simp: delivered_def)
  have spawn: "\<exists>inst' process' evs.
            SpawnProcessInInstance se ce inst process = ParentReturns kOk inst' process' evs
          \<and> proc_pid process' = fork_result se
          \<and> err_before_exec inst'
              = (if MigrateProcIn_ok se then kProtobufError
                 else if serialize_suicide_ok se then kCgroupError else kProtobufError)
          \<and> (if MigrateProcIn_ok se then PKill (- fork_result se) SIGKILL \<in> set evs
              else (\<forall>b r. PSendCanStart b r \<notin> set evs)
                 \<and> (\<forall>b. \<not> delivered evs (Some b))
                 \<and> precedes (PBufferCanStart False (serialize_suicide_ok se))
                     (PClose (fst (ctrl_sock_pair se))) evs
                 \<and> (PKill (- fork_result se) SIGKILL \<in> set evs) = (\<not> serialize_suicide_ok se))"
    using S pp ei [unfolded err] ev' by blast
  from Launch_registers [OF reach fork, of ce jm] obtain jm1 inst1 where
    "LaunchTaskInstanceMt le se ce inst jm = LaunchReturns jm1"
    "m_task_status_change_queue jm1 = m_task_status_change_queue jm"
    "m_task_map jm1 = (m_task_map jm)(task_id (task inst) \<mapsto> inst1)"
    "err_before_exec inst1 = spawn_error se (err_before_exec inst)"
    "processes inst1 (fork_result se) \<noteq> None"
    "m_pid_task_map jm1 = emplace (fork_result se) (task_id (task inst)) (m_pid_task_map jm)"
    "m_pid_proc_map jm1 (fork_result se) \<noteq> None"
    by blast
  then have launch: "\<exists>jm1 inst'.
            LaunchTaskInstanceMt le se ce inst jm = LaunchReturns jm1
          \<and> m_task_status_change_queue jm1 = m_task_status_change_queue jm
          \<and> m_task_map jm1 (task_id (task inst)) = Some inst'
          \<and> err_before_exec inst'
              = (if MigrateProcIn_ok se then kProtobufError
                 else if serialize_suicide_ok se then kCgroupError else kProtobufError)
          \<and> processes inst' (fork_result se) \<noteq> None
          \<and> m_pid_task_map jm1 = emplace (fork_result se) (task_id (task inst)) (m_pid_task_map jm)
          \<and> m_pid_proc_map jm1 (fork_result se) \<noteq> None"
    unfolding err by (intro exI [of _ jm1] exI [of _ inst1]) simp
  from launch_then_reap_silent [OF reach fork quiet, of ce ws]
  have reap: "\<exists>jm' inst'.
            launch_then_reap le se ce inst ws jm = Some jm'
          \<and> forwarded_for (task_id (task inst)) jm' = forwarded_for (task_id (task inst)) jm
          \<and> m_task_status_change_queue jm' = []
          \<and> m_task_map jm' (task_id (task inst)) = Some inst'
          \<and> err_before_exec inst'
              = (if MigrateProcIn_ok se then kProtobufError
                 else if serialize_suicide_ok se then kCgroupError else kProtobufError)"
    unfolding err by blast
  from spawn launch reap show ?thesis by (intro conjI)
qed

theorem post_fork_failure_never_reported_witness:
  "fork_succeeded demo_failed_migration demo_instance
   \<and> launch_reaches_spawn demo_launch_env demo_instance
   \<and> \<not> MigrateProcIn_ok demo_failed_migration
   \<and> filter (\<lambda>e. sc_task_id e = 42) (m_task_status_change_queue demo_admitted_manager) = []
   \<and> (\<exists>inst' process' evs.
         SpawnProcessInInstance demo_failed_migration demo_child_env demo_instance demo_process
           = ParentReturns kOk inst' process' evs
       \<and> proc_pid process' = 1234
       \<and> err_before_exec inst' = kCgroupError
       \<and> (\<forall>b r. PSendCanStart b r \<notin> set evs)
       \<and> (\<forall>b. \<not> delivered evs (Some b))
       \<and> precedes (PBufferCanStart False True) (PClose 7) evs
       \<and> PKill (- 1234) SIGKILL \<notin> set evs)
   \<and> (\<exists>jm1 inst'.
         LaunchTaskInstanceMt demo_launch_env demo_failed_migration demo_child_env demo_instance
           demo_admitted_manager = LaunchReturns jm1
       \<and> m_task_status_change_queue jm1 = []
       \<and> m_task_map jm1 42 = Some inst'
       \<and> err_before_exec inst' = kCgroupError
       \<and> processes inst' 1234 \<noteq> None
       \<and> m_pid_task_map jm1 1234 = Some 42
       \<and> m_pid_proc_map jm1 1234 \<noteq> None)
   \<and> (\<exists>jm' inst'.
         launch_then_reap demo_launch_env demo_failed_migration demo_child_env demo_instance
           demo_waitpid demo_admitted_manager = Some jm'
       \<and> forwarded_for 42 jm' = []
       \<and> m_task_status_change_queue jm' = []
       \<and> m_task_map jm' 42 = Some inst'
       \<and> err_before_exec inst' = kCgroupError)"
proof -
  have f: "\<not> MigrateProcIn_ok demo_failed_migration \<or> \<not> serialize_can_start_ok demo_failed_migration
           \<or> \<not> flush_ok demo_failed_migration \<or> \<not> parse_child_ready_ok demo_failed_migration"
    by (simp add: demo_launch_facts)
  have q: "filter (\<lambda>e. sc_task_id e = task_id (task demo_instance))
             (m_task_status_change_queue demo_admitted_manager) = []"
    by (simp add: demo_launch_facts)
  note H = post_fork_failure_never_reported [OF demo_launch_facts(3) demo_launch_facts(1) f q,
      of demo_child_env demo_process demo_waitpid]
  from H have 1: "\<exists>inst' process' evs.
         SpawnProcessInInstance demo_failed_migration demo_child_env demo_instance demo_process
           = ParentReturns kOk inst' process' evs
       \<and> proc_pid process' = 1234
       \<and> err_before_exec inst' = kCgroupError
       \<and> (\<forall>b r. PSendCanStart b r \<notin> set evs)
       \<and> (\<forall>b. \<not> delivered evs (Some b))
       \<and> precedes (PBufferCanStart False True) (PClose 7) evs
       \<and> PKill (- 1234) SIGKILL \<notin> set evs"
    by (simp add: demo_launch_facts)
  from H have "\<exists>jm1 inst'.
         LaunchTaskInstanceMt demo_launch_env demo_failed_migration demo_child_env demo_instance
           demo_admitted_manager = LaunchReturns jm1
       \<and> m_task_status_change_queue jm1 = []
       \<and> m_task_map jm1 42 = Some inst'
       \<and> err_before_exec inst' = kCgroupError
       \<and> processes inst' 1234 \<noteq> None
       \<and> m_pid_task_map jm1 = emplace 1234 42 Map.empty
       \<and> m_pid_proc_map jm1 1234 \<noteq> None"
    by (simp add: demo_launch_facts)
  then have 2: "\<exists>jm1 inst'.
         LaunchTaskInstanceMt demo_launch_env demo_failed_migration demo_child_env demo_instance
           demo_admitted_manager = LaunchReturns jm1
       \<and> m_task_status_change_queue jm1 = []
       \<and> m_task_map jm1 42 = Some inst'
       \<and> err_before_exec inst' = kCgroupError
       \<and> processes inst' 1234 \<noteq> None
       \<and> m_pid_task_map jm1 1234 = Some 42
       \<and> m_pid_proc_map jm1 1234 \<noteq> None"
    by (auto simp: emplace_apply)
  from H have 3: "\<exists>jm' inst'.
         launch_then_reap demo_launch_env demo_failed_migration demo_child_env demo_instance
           demo_waitpid demo_admitted_manager = Some jm'
       \<and> forwarded_for 42 jm' = []
       \<and> m_task_status_change_queue jm' = []
       \<and> m_task_map jm' 42 = Some inst'
       \<and> err_before_exec inst' = kCgroupError"
    by (simp add: demo_launch_facts)
  from demo_launch_facts(3) demo_launch_facts(1) demo_launch_facts(14) 1 2 3 show ?thesis
    by (simp add: demo_launch_facts)
qed
text \<open>
  Claim C8 against the code. In state Forwarding a successfully read reply whose type is
  not \<open>SUPERVISOR_TASK_INPUT\<close> leaves the client as it was: the state is unchanged, but
  no \<open>stream->Read\<close> is issued either, so no further reply can arrive. In state
  Unregistering a reply that is not \<open>SUPERVISOR_UNREGISTER_REPLY\<close> is ignored and the
  read is issued again, as it is in Forwarding after a \<open>SUPERVISOR_TASK_INPUT\<close>.
\<close>

theorem forwarding_drops_read_on_unexpected_reply:
  "AsyncSendRecv_iteration input (got_reply SUPERVISOR_UNREGISTER_REPLY msg) (c\<lparr>state := Forwarding\<rparr>)
     = (NextIteration, c\<lparr>state := Forwarding\<rparr>)
   \<and> AsyncSendRecv_iteration input (got_reply SUPERVISOR_REGISTER_REPLY msg) (c\<lparr>state := Forwarding\<rparr>)
     = (NextIteration, c\<lparr>state := Forwarding\<rparr>)
   \<and> AsyncSendRecv_iteration input (got_reply SUPERVISOR_TASK_INPUT msg) (c\<lparr>state := Unregistering\<rparr>)
     = (NextIteration, c\<lparr>state := Unregistering, stream_ops := stream_ops c @ [StreamRead]\<rparr>)
   \<and> AsyncSendRecv_iteration input (got_reply SUPERVISOR_REGISTER_REPLY msg) (c\<lparr>state := Unregistering\<rparr>)
     = (NextIteration, c\<lparr>state := Unregistering, stream_ops := stream_ops c @ [StreamRead]\<rparr>)
   \<and> stream_ops (snd (AsyncSendRecv_iteration input (got_reply SUPERVISOR_TASK_INPUT msg)
                         (c\<lparr>state := Forwarding\<rparr>)))
     = stream_ops c @ [StreamRead]"
  by (simp add: AsyncSendRecv_iteration_def got_reply_def after_switch_def issue_def Let_def)









text \<open>
  Claim C10. \<open>DedicatedResourceAllocator::Allocate\<close> returns true whatever
  \<open>SetDeviceAccess\<close> returns. So whether \<open>AllocateAndGetJobCgroup\<close> returns null does
  not depend on \<open>SetDeviceAccess\<close> at all: replacing that method by any other leaves it
  unchanged, and null is returned exactly when the cgroup version is unsupported, when a
  recovery finds no handle, or when the CPU or memory limit could not be set.
\<close>

theorem device_access_failure_never_fails_admission:
  "fst (DedicatedResourceAllocator_Allocate menv iface request_resource cg) = True
   \<and> returns_null (AllocateAndGetJobCgroup menv (iface\<lparr>SetDeviceAccess := f\<rparr>) cg_spec)
       = returns_null (AllocateAndGetJobCgroup menv iface cg_spec)
   \<and> returns_null (AllocateAndGetJobCgroup menv iface cg_spec)
       = (if GetCgroupVersion menv = UNDEFINED then True
          else if recovered cg_spec
          then CreateOrOpen menv = None
               \<and> (if CRANE_ENABLE_BPF menv then GetCgroupVersion menv = CGROUP_V1 else True)
          else (case CreateOrOpen menv of
                  None \<Rightarrow> False
                | Some cg0 \<Rightarrow>
                    fst (AllocatableResourceAllocator_Allocate iface (res_in_node cg_spec) cg0) = False))"
proof -
  have a: "fst (DedicatedResourceAllocator_Allocate menv iface request_resource cg) = True"
    by (rule Dedicated_Allocate_True)
  have c: "returns_null (AllocateAndGetJobCgroup menv i cg_spec)
       = (if GetCgroupVersion menv = UNDEFINED then True
          else if recovered cg_spec
          then CreateOrOpen menv = None
               \<and> (if CRANE_ENABLE_BPF menv then GetCgroupVersion menv = CGROUP_V1 else True)
          else (case CreateOrOpen menv of
                  None \<Rightarrow> False
                | Some cg0 \<Rightarrow>
                    fst (AllocatableResourceAllocator_Allocate i (res_in_node cg_spec) cg0) = False))"
    for i :: "'a CgroupInterface"
    by (cases "GetCgroupVersion menv")
       (auto simp: AllocateAndGetJobCgroup_def Let_def split: option.splits prod.splits)
  show ?thesis
    by (simp only: a c Allocatable_ignores_device_access)
qed


end
